theory Spec2Isabelle
  imports Main "HOL-Library.Word"
begin

unbundle bit_operations_syntax

section \<open>On-toolhead memory: header codec and lifecycle controller\<close>

text \<open>
  A shallow embedding of \<^verbatim>\<open>klippy/extras/cocoa_toolhead/memory.py\<close>: the 32-byte
  \<^verbatim>\<open>Header\<close> codec and the \<^verbatim>\<open>CocoaMemory\<close> controller. Python exceptions are
  values of the type \<open>error\<close>; a method that mutates \<^verbatim>\<open>self\<close> takes the controller
  state and returns the outcome together with the state it leaves behind, so that the
  state at the moment an exception is raised is part of the model.
\<close>

subsection \<open>Bytes and exceptions\<close>

type_synonym byte = "8 word"

text \<open>
  The exception classes of the module (\<^verbatim>\<open>HeaderError\<close> and its three subclasses,
  \<^verbatim>\<open>MemoryNotConnected\<close>, and \<^verbatim>\<open>CommandError\<close>, which the device raises) and the
  Python built-ins that the modelled statements can raise: \<^verbatim>\<open>KeyError\<close> from
  \<^verbatim>\<open>get\<close>, \<^verbatim>\<open>struct.error\<close> from \<^verbatim>\<open>struct.pack\<close>/\<^verbatim>\<open>unpack\<close>, \<^verbatim>\<open>IndexError\<close>
  from \<^verbatim>\<open>v[2]\<close>, \<^verbatim>\<open>AttributeError\<close> and \<^verbatim>\<open>TypeError\<close> from operations on
  \<^verbatim>\<open>None\<close>, and \<open>MsgpackError\<close> for whatever the payload codec raises.
\<close>

datatype error =
    InvalidChecksum
  | InvalidVersion
  | InvalidMagic
  | MemoryNotConnected
  | CommandError
  | KeyError
  | StructError
  | IndexError
  | AttributeError
  | TypeError
  | MsgpackError

text \<open>\<^verbatim>\<open>except HeaderError\<close> and \<^verbatim>\<open>except CommandError\<close> match by subclass.\<close>

fun is_HeaderError :: "error \<Rightarrow> bool" where
  "is_HeaderError InvalidChecksum = True"
| "is_HeaderError InvalidVersion = True"
| "is_HeaderError InvalidMagic = True"
| "is_HeaderError _ = False"

fun is_CommandError :: "error \<Rightarrow> bool" where
  "is_CommandError CommandError = True"
| "is_CommandError MemoryNotConnected = True"
| "is_CommandError e = is_HeaderError e"

subsection \<open>The checksum\<close>

text \<open>
  Modelled from the spec: \<^verbatim>\<open>crc16_ccitt\<close> of \<^verbatim>\<open>klippy/msgproto.py\<close>, which this
  module imports and which is not among the sources at hand. The spec calls it "a 16-bit
  CRC (CCITT variant) over an arbitrary byte sequence" whose value on the empty sequence
  is the fixed constant \<^verbatim>\<open>NULL_CRC16 = b"\xff\xff"\<close>. The definition is the byte-wise
  form of that CRC (polynomial \<open>0x1021\<close> reflected, initial value \<open>0xFFFF\<close>, no final
  inversion), in the shape the host code has it:
  \<^verbatim>\<open>
    crc = 0xFFFF
    for data in buf:
        data ^= crc & 0xFF
        data ^= (data & 0x0F) << 4
        crc = ((data << 8) | (crc >> 8)) ^ (data >> 4) ^ (data << 3)
    return [crc >> 8, crc & 0xFF]
  \<close>
  \<^verbatim>\<open>data\<close> stays below 256 and \<^verbatim>\<open>crc\<close> below 65536, so 16-bit words hold every
  intermediate value without wrap-around.
\<close>

definition crc16_step :: "16 word \<Rightarrow> byte \<Rightarrow> 16 word" where
  "crc16_step crc b =
     (let data = ucast b XOR (crc AND 0xFF);
          data = data XOR push_bit 4 (data AND 0x0F)
      in (push_bit 8 data OR drop_bit 8 crc) XOR drop_bit 4 data XOR push_bit 3 data)"

definition crc16_ccitt :: "byte list \<Rightarrow> byte list" where
  "crc16_ccitt buf =
     (let crc = foldl crc16_step 0xFFFF buf
      in [ucast (drop_bit 8 crc), ucast (crc AND 0xFF)])"

definition NULL_CRC16 :: "byte list" where
  "NULL_CRC16 = [0xFF, 0xFF]"

subsection \<open>struct: fixed-width little-endian fields\<close>

text \<open>
  \<^verbatim>\<open>struct.Struct("<2sB16sxxIBH2s2s")\<close>. An integer field (\<^verbatim>\<open>B\<close>, \<^verbatim>\<open>H\<close>, \<^verbatim>\<open>I\<close>) is
  \<open>n\<close> little-endian bytes and packing raises \<^verbatim>\<open>struct.error\<close> for a value outside
  \<open>0 \<le> v < 256 ^ n\<close>; a bytes field (\<^verbatim>\<open>2s\<close>, \<^verbatim>\<open>16s\<close>) is truncated or padded with
  null bytes to its width; \<^verbatim>\<open>xx\<close> is two null bytes, skipped on unpacking.
\<close>

fun le_bytes :: "nat \<Rightarrow> int \<Rightarrow> byte list" where
  "le_bytes 0 v = []"
| "le_bytes (Suc n) v = word_of_int v # le_bytes n (v div 256)"

fun le_int :: "byte list \<Rightarrow> int" where
  "le_int [] = 0"
| "le_int (b # bs) = uint b + 256 * le_int bs"

definition fits :: "nat \<Rightarrow> int \<Rightarrow> bool" where
  "fits n v \<longleftrightarrow> 0 \<le> v \<and> v < 256 ^ n"

definition pack_s :: "nat \<Rightarrow> byte list \<Rightarrow> byte list" where
  "pack_s n bs = take n bs @ replicate (n - length bs) 0"

definition struct_size :: nat where
  "struct_size = 32"

definition struct_pack ::
  "byte list \<Rightarrow> int \<Rightarrow> byte list \<Rightarrow> int \<Rightarrow> int \<Rightarrow> int \<Rightarrow> byte list \<Rightarrow> byte list
     \<Rightarrow> error + byte list" where
  "struct_pack magic_v version_v uid_bytes timestamp_v data_page_v data_length_v
       data_crc header_crc =
     (if fits 1 version_v \<and> fits 4 timestamp_v \<and> fits 1 data_page_v \<and> fits 2 data_length_v
      then Inr (pack_s 2 magic_v @ le_bytes 1 version_v @ pack_s 16 uid_bytes @ [0, 0]
                @ le_bytes 4 timestamp_v @ le_bytes 1 data_page_v @ le_bytes 2 data_length_v
                @ pack_s 2 data_crc @ pack_s 2 header_crc)
      else Inl StructError)"

definition bytes_slice :: "nat \<Rightarrow> nat \<Rightarrow> 'a list \<Rightarrow> 'a list" where
  "bytes_slice i j xs = take (j - i) (drop i xs)"

definition struct_unpack ::
  "byte list \<Rightarrow> error + (byte list \<times> int \<times> byte list \<times> int \<times> int \<times> int \<times> byte list \<times> byte list)"
  where
  "struct_unpack v =
     (if length v \<noteq> struct_size then Inl StructError
      else Inr (bytes_slice 0 2 v, le_int (bytes_slice 2 3 v), bytes_slice 3 19 v,
                le_int (bytes_slice 21 25 v), le_int (bytes_slice 25 26 v),
                le_int (bytes_slice 26 28 v), bytes_slice 28 30 v, bytes_slice 30 32 v))"

subsection \<open>Header\<close>

text \<open>
  \<^verbatim>\<open>uuid.UUID\<close> is a 128-bit integer; \<^verbatim>\<open>.bytes\<close> is its 16-byte big-endian form and
  \<^verbatim>\<open>UUID(bytes=b)\<close> reads it back.
\<close>

definition uuid_bytes :: "128 word \<Rightarrow> byte list" where
  "uuid_bytes u = rev (le_bytes 16 (uint u))"

definition UUID :: "byte list \<Rightarrow> 128 word" where
  "UUID bs = word_of_int (le_int (rev bs))"

text \<open>
  The frozen dataclass. Python integers are unbounded, so the integer fields are \<open>int\<close>:
  a header can hold a value its wire field cannot, and \<^verbatim>\<open>to_bytes\<close> then raises.
\<close>

record header =
  magic :: "byte list"
  version :: int
  uid :: "128 word"
  timestamp :: int
  data_page :: int
  data_length :: int
  data_checksum :: "byte list"

text \<open>The class attributes \<^verbatim>\<open>Header.magic\<close> and \<^verbatim>\<open>Header.version\<close> (the field defaults).\<close>

definition cls_magic :: "byte list" where
  "cls_magic = [0xC0, 0xC0]"

definition cls_version :: int where
  "cls_version = 1"

text \<open>
  \<^verbatim>\<open>Header()\<close>: every field at its default. The two default factories read the world
  (\<^verbatim>\<open>uuid.uuid1()\<close> and \<^verbatim>\<open>timestamp_utc()\<close>); what they return is passed in.
\<close>

definition Header :: "128 word \<Rightarrow> int \<Rightarrow> header" where
  "Header uuid1 now =
     \<lparr>magic = cls_magic, version = cls_version, uid = uuid1, timestamp = now,
      data_page = 0, data_length = 0, data_checksum = NULL_CRC16\<rparr>"

text \<open>
  \<^verbatim>\<open>Header.from_bytes\<close>. \<^verbatim>\<open>v[:2]\<close>, \<^verbatim>\<open>v[:-2]\<close> and \<^verbatim>\<open>v[-2:]\<close> are slices and never
  raise; \<^verbatim>\<open>v[2]\<close> raises \<^verbatim>\<open>IndexError\<close> on a buffer of two bytes, and
  \<^verbatim>\<open>struct.unpack\<close> raises unless the buffer has exactly 32 bytes.
\<close>

definition from_bytes :: "byte list \<Rightarrow> error + header" where
  "from_bytes v =
     (if take 2 v \<noteq> cls_magic then Inl InvalidMagic
      else if length v \<le> 2 then Inl IndexError
      else if uint (v ! 2) \<noteq> cls_version then Inl InvalidVersion
      else if crc16_ccitt (take (length v - 2) v) \<noteq> drop (length v - 2) v
        then Inl InvalidChecksum
      else (case struct_unpack v of
              Inl e \<Rightarrow> Inl e
            | Inr (magic_v, version_v, uid_bytes, timestamp_v, data_page_v, data_length_v,
                   data_crc, header_crc) \<Rightarrow>
                Inr \<lparr>magic = magic_v, version = version_v, uid = UUID uid_bytes,
                     timestamp = timestamp_v, data_page = data_page_v,
                     data_length = data_length_v, data_checksum = data_crc\<rparr>))"

text \<open>\<^verbatim>\<open>Header.to_bytes\<close>: pack with the placeholder, then \<^verbatim>\<open>dat[:-2] + crc(dat[:-2])\<close>.\<close>

definition to_bytes :: "header \<Rightarrow> error + byte list" where
  "to_bytes h =
     (case struct_pack (magic h) (version h) (uuid_bytes (uid h)) (timestamp h)
             (data_page h) (data_length h) (data_checksum h) NULL_CRC16 of
        Inl e \<Rightarrow> Inl e
      | Inr dat \<Rightarrow>
          Inr (take (length dat - 2) dat @ crc16_ccitt (take (length dat - 2) dat)))"

text \<open>
  \<^verbatim>\<open>Header.update\<close>: \<^verbatim>\<open>dataclasses.replace\<close> builds a new header; \<open>now\<close> is what
  \<^verbatim>\<open>timestamp_utc()\<close> returns at the call.
\<close>

definition update :: "int \<Rightarrow> header \<Rightarrow> byte list \<Rightarrow> header" where
  "update now h data =
     h\<lparr>timestamp := now, data_length := int (length data),
       data_checksum := crc16_ccitt data\<rparr>"

definition get_data_address :: "header \<Rightarrow> int" where
  "get_data_address h = 256 * (data_page h + 1)"

subsection \<open>The storage device\<close>

text \<open>
  Modelled from the spec: the \<^verbatim>\<open>Memory\<close> object of \<^verbatim>\<open>klippy/extras/memory.py\<close>, which
  is not among the sources at hand. The spec's device contract is
  "\<^verbatim>\<open>read(address, length) -> bytes or failure\<close>, \<^verbatim>\<open>write(address, bytes) -> success or
  failure\<close>; no partial-write semantics are assumed: a write either fully applies or the
  controller surfaces a device error". The device holds its cells, the log of the writes
  it has applied (oldest first), and a script saying which of the coming operations fail
  (\<open>True\<close>: the next operation raises \<^verbatim>\<open>CommandError\<close>; an exhausted script: no more
  failures).
\<close>

record device =
  cells :: "int \<Rightarrow> byte"
  written :: "(int \<times> byte list) list"
  faults :: "bool list"

definition next_fails :: "device \<Rightarrow> bool" where
  "next_fails d = (case faults d of [] \<Rightarrow> False | f # _ \<Rightarrow> f)"

definition fetch :: "(int \<Rightarrow> byte) \<Rightarrow> int \<Rightarrow> int \<Rightarrow> byte list" where
  "fetch c address len = map (\<lambda>i. c (address + int i)) [0..<nat len]"

definition place :: "int \<Rightarrow> byte list \<Rightarrow> (int \<Rightarrow> byte) \<Rightarrow> int \<Rightarrow> byte" where
  "place address bs c =
     (\<lambda>a. if address \<le> a \<and> a < address + int (length bs) then bs ! nat (a - address)
          else c a)"

definition mem_read :: "int \<Rightarrow> int \<Rightarrow> device \<Rightarrow> (error + byte list) \<times> device" where
  "mem_read address len d =
     (let d' = d\<lparr>faults := tl (faults d)\<rparr>
      in if next_fails d then (Inl CommandError, d')
         else (Inr (fetch (cells d) address len), d'))"

definition mem_write :: "int \<Rightarrow> byte list \<Rightarrow> device \<Rightarrow> (error + unit) \<times> device" where
  "mem_write address bs d =
     (let d' = d\<lparr>faults := tl (faults d)\<rparr>
      in if next_fails d then (Inl CommandError, d')
         else (Inr (), d'\<lparr>cells := place address bs (cells d),
                          written := written d @ [(address, bs)]\<rparr>))"

subsection \<open>The record and the world around the controller\<close>

text \<open>
  A value of the record is any Python object. The model tells apart the \<^verbatim>\<open>...\<close>
  (\<^verbatim>\<open>Ellipsis\<close>) object, which \<^verbatim>\<open>get\<close> uses as its "no default" marker, and strings
  (the generated name is one); every other object is an \<open>Obj\<close> of an arbitrary type.
  The record is a \<^verbatim>\<open>dict\<close> with string keys; the attribute that holds it can also be
  \<^verbatim>\<open>None\<close>.
\<close>

datatype 'v pyobj = Ellipsis | PyStr string | Obj 'v

type_synonym 'v pydict = "string \<rightharpoonup> 'v pyobj"

text \<open>
  What one run of a controller method reads from outside the module: the identifier
  \<^verbatim>\<open>uuid.uuid1()\<close> returns, the clock as \<^verbatim>\<open>Header()\<close> reads it and as
  \<^verbatim>\<open>Header.update\<close> reads it inside \<^verbatim>\<open>save\<close>, the name \<^verbatim>\<open>generate_name()\<close>
  returns, and the payload codec \<^verbatim>\<open>msgpack.dumps\<close>/\<^verbatim>\<open>msgpack.loads\<close> (an external
  library, taken as given; payloads are taken to decode to mappings, which is what the
  controller writes).
\<close>

record 'v env =
  uuid1 :: "128 word"
  created_at :: int
  saved_at :: int
  generate_name :: string
  msgpack_dumps :: "'v pydict option \<Rightarrow> error + byte list"
  msgpack_loads :: "byte list \<Rightarrow> error + 'v pydict"

subsection \<open>CocoaMemory\<close>

text \<open>
  The attributes of the controller that the modelled methods read or write. The autosave
  timer is reduced to whether it is armed, and the \<^verbatim>\<open>cocoa_memory:<name>:ready\<close> events
  sent so far are kept as a list of their arguments; logging and \<^verbatim>\<open>respond_info\<close>
  change nothing the methods read and are left out.
\<close>

record 'v cocoa_memory =
  memory :: device
  connected :: bool
  header :: "header option"
  config :: "'v pydict option"
  last_header :: "header option"
  last_config :: "'v pydict option"
  save_timer_armed :: bool
  ready_events :: "(bool \<times> 'v pydict option) list"

text \<open>Python truth value of \<^verbatim>\<open>self._last_config\<close>: \<^verbatim>\<open>None\<close> and \<^verbatim>\<open>{}\<close> are false.\<close>

definition truthy :: "'v pydict option \<Rightarrow> bool" where
  "truthy c = (case c of None \<Rightarrow> False | Some m \<Rightarrow> m \<noteq> Map.empty)"

text \<open>
  \<^verbatim>\<open>save\<close>. The statements run in source order; an exception leaves the state as the
  statements before it made it. \<^verbatim>\<open>copy.deepcopy\<close> is the identity on values.
\<close>

definition save :: "'v env \<Rightarrow> 'v cocoa_memory \<Rightarrow> (error + unit) \<times> 'v cocoa_memory" where
  "save env s =
     (case msgpack_dumps env (config s) of
        Inl e \<Rightarrow> (Inl e, s)
      | Inr cfg \<Rightarrow>
          (case header s of
             None \<Rightarrow> (Inl AttributeError, s)
           | Some h \<Rightarrow>
               (let new_header = update (saved_at env) h cfg
                in case mem_write (get_data_address new_header) cfg (memory s) of
                     (Inl e, d1) \<Rightarrow> (Inl e, s\<lparr>memory := d1\<rparr>)
                   | (Inr _, d1) \<Rightarrow>
                       (case to_bytes new_header of
                          Inl e \<Rightarrow> (Inl e, s\<lparr>memory := d1\<rparr>)
                        | Inr header_bytes \<Rightarrow>
                            (case mem_write 0 header_bytes d1 of
                               (Inl e, d2) \<Rightarrow> (Inl e, s\<lparr>memory := d2\<rparr>)
                             | (Inr _, d2) \<Rightarrow>
                                 (Inr (), s\<lparr>memory := d2, header := Some new_header,
                                            last_config := config s\<rparr>))))))"

text \<open>
  The last three statements of \<^verbatim>\<open>_attached\<close>: arm the timer, report, send the ready
  event.
\<close>

definition attach_done :: "'v cocoa_memory \<Rightarrow> (error + unit) \<times> 'v cocoa_memory" where
  "attach_done s =
     (Inr (), s\<lparr>save_timer_armed := True,
                ready_events := ready_events s @ [(connected s, config s)]\<rparr>)"

text \<open>\<^verbatim>\<open>_attached\<close>, the read-and-validate step scheduled by an attach event.\<close>

definition attached :: "'v env \<Rightarrow> 'v cocoa_memory \<Rightarrow> (error + unit) \<times> 'v cocoa_memory" where
  "attached env s =
     (case mem_read 0 (int struct_size) (memory s) of
        (Inl e, d) \<Rightarrow>
          (if is_CommandError e
           then (Inr (), s\<lparr>memory := d, connected := False,
                           ready_events := ready_events s @ [(False, config s)]\<rparr>)
           else (Inl e, s\<lparr>memory := d\<rparr>))
      | (Inr header_data, d) \<Rightarrow>
          (let s1 = s\<lparr>memory := d, connected := True\<rparr>
           in case from_bytes header_data of
                Inl e \<Rightarrow>
                  (if is_HeaderError e
                   then (let h0 = Header (uuid1 env) (created_at env);
                             s2 = s1\<lparr>last_header := Some h0, header := Some h0,
                                     config := Some [''name'' \<mapsto> PyStr (generate_name env)]\<rparr>
                         in case save env s2 of
                              (Inl e', s3) \<Rightarrow> (Inl e', s3)
                            | (Inr _, s3) \<Rightarrow> attach_done s3)
                   else (Inl e, s1))
              | Inr h \<Rightarrow>
                  (let s2 = s1\<lparr>header := Some h\<rparr>
                   in if data_length h > 0
                      then (if Some h = last_header s2 \<and> truthy (last_config s2)
                            then attach_done (s2\<lparr>config := last_config s2\<rparr>)
                            else (case mem_read (get_data_address h) (data_length h)
                                         (memory s2) of
                                    (Inl e, d') \<Rightarrow> (Inl e, s2\<lparr>memory := d'\<rparr>)
                                  | (Inr data, d') \<Rightarrow>
                                      (case msgpack_loads env data of
                                         Inl e \<Rightarrow> (Inl e, s2\<lparr>memory := d'\<rparr>)
                                       | Inr m \<Rightarrow>
                                           attach_done
                                             (s2\<lparr>memory := d', last_config := Some m,
                                                 config := Some m\<rparr>))))
                      else attach_done (s2\<lparr>config := Some Map.empty\<rparr>))))"

text \<open>\<^verbatim>\<open>_on_detach\<close>, \<^verbatim>\<open>has_changes\<close> and \<^verbatim>\<open>_autosave\<close>.\<close>

definition on_detach :: "'v cocoa_memory \<Rightarrow> 'v cocoa_memory" where
  "on_detach s = s\<lparr>connected := False, header := None, config := None,
                   save_timer_armed := False\<rparr>"

definition has_changes :: "'v cocoa_memory \<Rightarrow> bool" where
  "has_changes s \<longleftrightarrow> config s \<noteq> last_config s"

definition autosave :: "'v env \<Rightarrow> 'v cocoa_memory \<Rightarrow> (error + unit) \<times> 'v cocoa_memory" where
  "autosave env s = (if has_changes s then save env s else (Inr (), s))"

subsection \<open>The key-value accessors\<close>

text \<open>
  Each accessor checks \<^verbatim>\<open>self.connected\<close> first and then works on \<^verbatim>\<open>self.config\<close>. When
  that attribute is \<^verbatim>\<open>None\<close>, \<^verbatim>\<open>key in None\<close> and \<^verbatim>\<open>None[key] = val\<close> raise
  \<^verbatim>\<open>TypeError\<close> and \<^verbatim>\<open>None.get\<close> and \<^verbatim>\<open>None.setdefault\<close> raise \<^verbatim>\<open>AttributeError\<close>.
  \<^verbatim>\<open>get\<close> has the signature \<^verbatim>\<open>get(key, default=...)\<close>: a call without a default is
  a call with the \<^verbatim>\<open>Ellipsis\<close> object as default.
\<close>

definition has :: "string \<Rightarrow> 'v cocoa_memory \<Rightarrow> (error + bool) \<times> 'v cocoa_memory" where
  "has key s =
     (if \<not> connected s then (Inl MemoryNotConnected, s)
      else case config s of
             None \<Rightarrow> (Inl TypeError, s)
           | Some m \<Rightarrow> (Inr (key \<in> dom m), s))"

definition get :: "string \<Rightarrow> 'v pyobj \<Rightarrow> 'v cocoa_memory \<Rightarrow> (error + 'v pyobj) \<times> 'v cocoa_memory"
  where
  "get key dflt s =
     (if \<not> connected s then (Inl MemoryNotConnected, s)
      else case config s of
             None \<Rightarrow> (Inl AttributeError, s)
           | Some m \<Rightarrow>
               (let val = (case m key of None \<Rightarrow> dflt | Some v \<Rightarrow> v)
                in if val = Ellipsis then (Inl KeyError, s) else (Inr val, s)))"

definition set_value :: "string \<Rightarrow> 'v pyobj \<Rightarrow> 'v cocoa_memory \<Rightarrow> (error + unit) \<times> 'v cocoa_memory"
  where
  "set_value key val s =
     (if \<not> connected s then (Inl MemoryNotConnected, s)
      else case config s of
             None \<Rightarrow> (Inl TypeError, s)
           | Some m \<Rightarrow> (Inr (), s\<lparr>config := Some (m(key \<mapsto> val))\<rparr>))"

definition setdefault ::
  "string \<Rightarrow> 'v pyobj \<Rightarrow> 'v cocoa_memory \<Rightarrow> (error + 'v pyobj) \<times> 'v cocoa_memory" where
  "setdefault key dflt s =
     (if \<not> connected s then (Inl MemoryNotConnected, s)
      else case config s of
             None \<Rightarrow> (Inl AttributeError, s)
           | Some m \<Rightarrow>
               (case m key of
                  None \<Rightarrow> (Inr dflt, s\<lparr>config := Some (m(key \<mapsto> dflt))\<rparr>)
                | Some v \<Rightarrow> (Inr v, s)))"

definition delete :: "string \<Rightarrow> 'v cocoa_memory \<Rightarrow> (error + unit) \<times> 'v cocoa_memory" where
  "delete key s =
     (if \<not> connected s then (Inl MemoryNotConnected, s)
      else case config s of
             None \<Rightarrow> (Inl TypeError, s)
           | Some m \<Rightarrow>
               (if key \<in> dom m then (Inr (), s\<lparr>config := Some (m(key := None))\<rparr>)
                else (Inr (), s)))"

text \<open>\<^verbatim>\<open>__init__\<close> with a \<^verbatim>\<open>memory\<close> option: nothing connected, nothing cached.\<close>

definition CocoaMemory :: "device \<Rightarrow> 'v cocoa_memory" where
  "CocoaMemory d =
     \<lparr>memory = d, connected = False, header = None, config = None, last_header = None,
      last_config = None, save_timer_armed = False, ready_events = []\<rparr>"

subsection \<open>Notions the properties are stated with\<close>

text \<open>
  The headers the codec produces: \<^verbatim>\<open>Header()\<close>, the result of \<^verbatim>\<open>from_bytes\<close>, and
  \<^verbatim>\<open>update\<close> of such a header with a payload whose length fits the 16-bit field. The
  clock is taken to show a time the 32-bit timestamp field can hold (any time from 1970
  to 2106).
\<close>

inductive codec_header :: "header \<Rightarrow> bool" where
  fresh: "fits 4 now \<Longrightarrow> codec_header (Header u now)"
| decoded: "from_bytes v = Inr h \<Longrightarrow> codec_header h"
| updated: "codec_header h \<Longrightarrow> fits 4 now \<Longrightarrow> length data < 2 ^ 16
              \<Longrightarrow> codec_header (update now h data)"

definition packable :: "header \<Rightarrow> bool" where
  "packable h \<longleftrightarrow>
     magic h = cls_magic \<and> version h = cls_version \<and> fits 4 (timestamp h)
     \<and> fits 1 (data_page h) \<and> fits 2 (data_length h) \<and> length (data_checksum h) = 2"

text \<open>
  The header checksum as the spec words it: pack the 32 bytes with the checksum field
  holding the placeholder, and take the checksum "over that buffer", placeholder
  included.
\<close>

definition spec_two_pass_checksum :: "header \<Rightarrow> error + byte list" where
  "spec_two_pass_checksum h =
     (case struct_pack (magic h) (version h) (uuid_bytes (uid h)) (timestamp h)
             (data_page h) (data_length h) (data_checksum h) NULL_CRC16 of
        Inl e \<Rightarrow> Inl e
      | Inr dat \<Rightarrow> Inr (crc16_ccitt dat))"

text \<open>Flipping bit \<open>k\<close> of byte \<open>i\<close> of a buffer.\<close>

definition flip_bit_at :: "nat \<Rightarrow> nat \<Rightarrow> byte list \<Rightarrow> byte list" where
  "flip_bit_at i k v = v[i := flip_bit k (v ! i)]"

text \<open>The three stages of one CRC step, named for the proofs.\<close>

definition crc_t :: "16 word \<Rightarrow> byte \<Rightarrow> 16 word" where
  "crc_t c d = ucast d XOR (c AND 0xFF)"

definition crc_x :: "16 word \<Rightarrow> 16 word" where
  "crc_x t = t XOR push_bit 4 (t AND 0x0F)"

definition crc_mix :: "16 word \<Rightarrow> 16 word \<Rightarrow> 16 word" where
  "crc_mix c x = (push_bit 8 x OR drop_bit 8 c) XOR drop_bit 4 x XOR push_bit 3 x"

definition crc_fold :: "16 word \<Rightarrow> 16 word" where
  "crc_fold x = x XOR drop_bit 5 x"

definition crc_spread :: "16 word \<Rightarrow> 16 word" where
  "crc_spread x = push_bit 8 x XOR drop_bit 4 x XOR push_bit 3 x"

subsection \<open>Sample data\<close>

text \<open>
  Two payloads, the msgpack encodings of \<^verbatim>\<open>{"name": "x"}\<close> and \<^verbatim>\<open>{"name": "y"}\<close>
  (a one-entry map, the four-byte string \<^verbatim>\<open>name\<close>, a one-byte string): they differ in
  one bit of the last byte.
\<close>

definition payload_x :: "byte list" where
  "payload_x = [0x81, 0xA4, 0x6E, 0x61, 0x6D, 0x65, 0xA1, 0x78]"

definition payload_y :: "byte list" where
  "payload_y = [0x81, 0xA4, 0x6E, 0x61, 0x6D, 0x65, 0xA1, 0x79]"

text \<open>
  A payload codec for the examples: on \<^verbatim>\<open>None\<close>, on the empty record and on the two
  records above it gives what msgpack gives; it looks at the \<^verbatim>\<open>name\<close> key only and
  rejects everything else.
\<close>

definition sample_dumps :: "int pydict option \<Rightarrow> error + byte list" where
  "sample_dumps c =
     (case c of
        None \<Rightarrow> Inr [0xC0]
      | Some m \<Rightarrow>
          (case m ''name'' of
             None \<Rightarrow> Inr [0x80]
           | Some (PyStr n) \<Rightarrow>
               if n = ''x'' then Inr payload_x
               else if n = ''y'' then Inr payload_y
               else Inl MsgpackError
           | Some _ \<Rightarrow> Inl MsgpackError))"

definition sample_loads :: "byte list \<Rightarrow> error + int pydict" where
  "sample_loads bs =
     (if bs = payload_x then Inr [''name'' \<mapsto> PyStr ''x'']
      else if bs = payload_y then Inr [''name'' \<mapsto> PyStr ''y'']
      else if bs = [0x80] then Inr Map.empty
      else Inl MsgpackError)"

definition sample_uid :: "128 word" where
  "sample_uid = 0x000102030405060708090A0B0C0D0E0F"

definition sample_env :: "int env" where
  "sample_env =
     \<lparr>uuid1 = sample_uid, created_at = 1700000000, saved_at = 1700000060,
      generate_name = ''x'', msgpack_dumps = sample_dumps, msgpack_loads = sample_loads\<rparr>"

text \<open>
  The header \<^verbatim>\<open>save\<close> builds for \<open>payload_x\<close> from a header created in
  \<open>sample_env\<close>, and its 32 bytes: the 30 bytes of the fields, then the checksum.
\<close>

definition sample_header :: header where
  "sample_header =
     \<lparr>magic = [0xC0, 0xC0], version = 1, uid = sample_uid, timestamp = 1700000060,
      data_page = 0, data_length = 8, data_checksum = [0xCF, 0xAE]\<rparr>"

definition sample_header_body :: "byte list" where
  "sample_header_body =
     [0xC0, 0xC0, 0x01,
      0x00, 0x01, 0x02, 0x03, 0x04, 0x05, 0x06, 0x07,
      0x08, 0x09, 0x0A, 0x0B, 0x0C, 0x0D, 0x0E, 0x0F,
      0x00, 0x00,
      0x3C, 0xF1, 0x53, 0x65,
      0x00,
      0x08, 0x00,
      0xCF, 0xAE]"

definition sample_header_bytes :: "byte list" where
  "sample_header_bytes = sample_header_body @ [0xD3, 0x4C]"

text \<open>
  Three devices without faults: a blank one (every cell \<open>0xFF\<close>), one holding
  \<open>sample_header\<close> and its payload, and one holding the same header over a payload
  that has changed since.
\<close>

definition blank_device :: device where
  "blank_device = \<lparr>cells = (\<lambda>_. 0xFF), written = [], faults = []\<rparr>"

definition saved_device :: device where
  "saved_device =
     \<lparr>cells = place 0 sample_header_bytes (place 256 payload_x (\<lambda>_. 0xFF)),
      written = [], faults = []\<rparr>"

definition stale_device :: device where
  "stale_device =
     \<lparr>cells = place 0 sample_header_bytes (place 256 payload_y (\<lambda>_. 0xFF)),
      written = [], faults = []\<rparr>"

text \<open>
  The device that holds \<open>sample_header\<close> and its payload, with a failure on the way:
  its next operation succeeds and the one after it fails.
\<close>

definition unreadable_device :: device where
  "unreadable_device = saved_device\<lparr>faults := [False, True]\<rparr>"

text \<open>A connected controller with a fresh header and the record \<^verbatim>\<open>{"name": "x"}\<close>.\<close>

definition sample_connected :: "int cocoa_memory" where
  "sample_connected =
     (CocoaMemory blank_device)
       \<lparr>connected := True, header := Some (Header sample_uid 1700000000),
        config := Some [''name'' \<mapsto> PyStr ''x'']\<rparr>"

text \<open>The same controller on a device whose second operation from now fails.\<close>

definition faulty_connected :: "int cocoa_memory" where
  "faulty_connected = sample_connected\<lparr>memory := blank_device\<lparr>faults := [False, True]\<rparr>\<rparr>"

section \<open>Properties\<close>

subsection \<open>Packing and unpacking\<close>

lemma length_le_bytes [simp]: "length (le_bytes n v) = n"
  by (induction n arbitrary: v) simp_all

lemma length_pack_s [simp]: "length (pack_s n bs) = n"
  by (simp add: pack_s_def)

lemma pack_s_exact [simp]: "length bs = n \<Longrightarrow> pack_s n bs = bs"
  by (simp add: pack_s_def)

lemma length_crc16_ccitt [simp]: "length (crc16_ccitt buf) = 2"
  by (simp add: crc16_ccitt_def Let_def)

lemma le_int_le_bytes: "0 \<le> v \<Longrightarrow> v < 256 ^ n \<Longrightarrow> le_int (le_bytes n v) = v"
proof (induction n arbitrary: v)
  case 0
  then show ?case by simp
next
  case (Suc n)
  define N :: int where "N = 256 ^ n"
  have "v < 256 * N" using Suc.prems by (simp add: N_def)
  then have "v div 256 < N" by linarith
  then have "v div 256 < 256 ^ n" by (simp add: N_def)
  moreover have "0 \<le> v div 256" using Suc.prems by simp
  ultimately have "le_int (le_bytes n (v div 256)) = v div 256" by (rule Suc.IH[rotated])
  moreover have "uint (word_of_int v :: byte) = v mod 256"
    by (simp add: uint_word_of_int)
  ultimately show ?case by simp
qed

lemma le_int_bounds: "0 \<le> le_int bs \<and> le_int bs < 256 ^ length bs"
proof (induction bs)
  case Nil
  then show ?case by simp
next
  case (Cons b bs)
  have "uint b < 256" using uint_bounded[of b] by simp
  moreover have "0 \<le> uint b" by simp
  ultimately show ?case using Cons by auto
qed

lemma fits_le_int: "length bs = n \<Longrightarrow> fits n (le_int bs)"
  using le_int_bounds[of bs] by (simp add: fits_def)

lemma UUID_uuid_bytes [simp]: "UUID (uuid_bytes u) = u"
proof -
  have "uint u < 256 ^ 16" using uint_bounded[of u] by simp
  then have "le_int (le_bytes 16 (uint u)) = uint u" by (simp add: le_int_le_bytes)
  then show ?thesis by (simp add: UUID_def uuid_bytes_def)
qed

lemma slice_past_prefix:
  "length xs \<le> i \<Longrightarrow> bytes_slice i j (xs @ ys) = bytes_slice (i - length xs) (j - length xs) ys"
  by (simp add: bytes_slice_def)

lemma slice_prefix: "length xs = j \<Longrightarrow> bytes_slice 0 j (xs @ ys) = xs"
  by (simp add: bytes_slice_def)

lemma slice_all: "length xs = j \<Longrightarrow> bytes_slice 0 j xs = xs"
  by (simp add: bytes_slice_def)

lemma layout:
  assumes "length A = 2" "length B = 1" "length C = 16" "length D = 2" "length E = 4"
    "length F = 1" "length G = 2" "length H = 2"
  shows "bytes_slice 0 2 (A @ B @ C @ D @ E @ F @ G @ H @ K) = A"
    and "bytes_slice 2 3 (A @ B @ C @ D @ E @ F @ G @ H @ K) = B"
    and "bytes_slice 3 19 (A @ B @ C @ D @ E @ F @ G @ H @ K) = C"
    and "bytes_slice 21 25 (A @ B @ C @ D @ E @ F @ G @ H @ K) = E"
    and "bytes_slice 25 26 (A @ B @ C @ D @ E @ F @ G @ H @ K) = F"
    and "bytes_slice 26 28 (A @ B @ C @ D @ E @ F @ G @ H @ K) = G"
    and "bytes_slice 28 30 (A @ B @ C @ D @ E @ F @ G @ H @ K) = H"
    and "take 2 (A @ B @ C @ D @ E @ F @ G @ H @ K) = A"
    and "(A @ B @ C @ D @ E @ F @ G @ H @ K) ! 2 = B ! 0"
  using assms by (simp_all add: slice_past_prefix slice_prefix nth_append)

lemma packable_roundtrip:
  assumes "packable h"
  shows "\<exists>bs. to_bytes h = Inr bs \<and> from_bytes bs = Inr h"
proof -
  from assms have m: "magic h = cls_magic" and v: "version h = cls_version"
    and t: "fits 4 (timestamp h)" and p: "fits 1 (data_page h)" and l: "fits 2 (data_length h)"
    and c: "length (data_checksum h) = 2"
    by (simp_all add: packable_def)
  define A where "A = magic h"
  define B where "B = le_bytes 1 (version h)"
  define C where "C = uuid_bytes (uid h)"
  define D where "D = [0, 0 :: byte]"
  define E where "E = le_bytes 4 (timestamp h)"
  define F where "F = le_bytes 1 (data_page h)"
  define G where "G = le_bytes 2 (data_length h)"
  define H where "H = data_checksum h"
  define body where "body = A @ B @ C @ D @ E @ F @ G @ H"
  define K where "K = crc16_ccitt body"
  have len: "length A = 2" "length B = 1" "length C = 16" "length D = 2" "length E = 4"
    "length F = 1" "length G = 2" "length H = 2"
    using m c by (simp_all add: A_def B_def C_def D_def E_def F_def G_def H_def
        uuid_bytes_def cls_magic_def)
  have lb: "length body = 30" using len by (simp add: body_def)
  have all: "body @ K = A @ B @ C @ D @ E @ F @ G @ H @ K" by (simp add: body_def)
  have tb: "to_bytes h = Inr (body @ K)"
    using t p l lb len
    by (simp add: to_bytes_def struct_pack_def NULL_CRC16_def body_def K_def v cls_version_def
        fits_def A_def B_def C_def D_def E_def F_def G_def H_def del: le_bytes.simps)
  have B0: "uint (B ! 0) = cls_version"
    by (simp add: B_def v cls_version_def One_nat_def)
  have fields: "le_int B = version h" "UUID C = uid h" "le_int E = timestamp h"
    "le_int F = data_page h" "le_int G = data_length h"
    using t p l by (simp_all add: B_def C_def E_def F_def G_def le_int_le_bytes fits_def v
        cls_version_def del: le_bytes.simps)
  have fb: "from_bytes (body @ K) = Inr h"
    unfolding from_bytes_def struct_unpack_def all
    using len lb B0 fields
    by (simp add: layout[OF len] struct_size_def m[symmetric] A_def[symmetric]
        K_def[symmetric] K_def body_def) (simp add: A_def H_def)
  show ?thesis using tb fb by blast
qed


lemma Header_packable: "fits 4 now \<Longrightarrow> packable (Header u now)"
  by (simp add: packable_def Header_def NULL_CRC16_def fits_def)

lemma from_bytes_length: "from_bytes v = Inr h \<Longrightarrow> length v = 32"
  by (auto simp: from_bytes_def struct_unpack_def struct_size_def split: if_splits)

lemma length_bytes_slice: "j \<le> length v \<Longrightarrow> length (bytes_slice i j v) = j - i"
  by (simp add: bytes_slice_def)

lemma from_bytes_packable:
  assumes "from_bytes v = Inr h"
  shows "packable h"
proof -
  have len: "length v = 32" using assms by (rule from_bytes_length)
  have chk: "take 2 v = cls_magic" "uint (v ! 2) = cls_version"
    using assms by (auto simp: from_bytes_def split: if_splits)
  have h: "h = \<lparr>magic = bytes_slice 0 2 v, version = le_int (bytes_slice 2 3 v),
      uid = UUID (bytes_slice 3 19 v), timestamp = le_int (bytes_slice 21 25 v),
      data_page = le_int (bytes_slice 25 26 v), data_length = le_int (bytes_slice 26 28 v),
      data_checksum = bytes_slice 28 30 v\<rparr>"
    using assms len
    by (auto simp: from_bytes_def struct_unpack_def struct_size_def split: if_splits)
  have "drop 2 v = v ! 2 # drop (Suc 2) v"
    using len by (intro Cons_nth_drop_Suc[symmetric]) simp
  then have v2: "bytes_slice 2 3 v = [v ! 2]"
    by (simp add: bytes_slice_def)
  show ?thesis
    unfolding packable_def
    apply (subst h, subst h, subst h, subst h, subst h, subst h)
    using len chk
    by (simp add: fits_le_int length_bytes_slice v2) (simp add: bytes_slice_def)
qed


lemma update_packable:
  "packable h \<Longrightarrow> fits 4 now \<Longrightarrow> length data < 2 ^ 16 \<Longrightarrow> packable (update now h data)"
  by (simp add: packable_def update_def fits_def)

lemma codec_header_packable: "codec_header h \<Longrightarrow> packable h"
  by (induction rule: codec_header.induct)
    (simp_all add: Header_packable from_bytes_packable update_packable)

text \<open>
  C2: for every header \<open>h\<close> that the codec produces (\<^verbatim>\<open>Header()\<close>, a decoded header, or
  \<^verbatim>\<open>update\<close> of one of these with a payload whose length fits in 16 bits), encoding
  succeeds and decoding the encoding gives \<open>h\<close> back, field for field.
\<close>

theorem header_roundtrip:
  "codec_header h \<Longrightarrow> \<exists>bs. to_bytes h = Inr bs \<and> from_bytes bs = Inr h"
  by (rule packable_roundtrip) (rule codec_header_packable)

lemma le_bytes_numeral [simp]:
  "le_bytes (numeral k) v = word_of_int v # le_bytes (pred_numeral k) (v div 256)"
  by (simp add: numeral_eq_Suc)

lemma le_bytes_1 [simp]: "le_bytes 1 v = [word_of_int v]"
  by (simp add: One_nat_def del: One_nat_def[symmetric])

subsection \<open>The sample header\<close>

lemma crc_payload_x: "crc16_ccitt payload_x = [0xCF, 0xAE]"
  by (simp add: payload_x_def crc16_ccitt_def crc16_step_def Let_def)

lemma crc_payload_y: "crc16_ccitt payload_y = [0xDE, 0x27]"
  by (simp add: payload_y_def crc16_ccitt_def crc16_step_def Let_def)

lemma sample_header_eq:
  "update 1700000060 (Header sample_uid 1700000000) payload_x = sample_header"
  by (simp add: sample_header_def update_def Header_def crc_payload_x cls_magic_def
      cls_version_def) (simp add: payload_x_def)

lemma sample_uuid_bytes:
  "uuid_bytes sample_uid = [0, 1, 2, 3, 4, 5, 6, 7, 8, 9, 10, 11, 12, 13, 14, 15]"
  by (simp add: uuid_bytes_def sample_uid_def)

lemma length_sample_header_body: "length sample_header_body = 30"
  by (simp add: sample_header_body_def)

lemma sample_pack:
  "struct_pack (magic sample_header) (version sample_header) (uuid_bytes (uid sample_header))
     (timestamp sample_header) (data_page sample_header) (data_length sample_header)
     (data_checksum sample_header) NULL_CRC16
   = Inr (sample_header_body @ [0xFF, 0xFF])"
  by (simp add: sample_header_def sample_uuid_bytes struct_pack_def fits_def pack_s_def
      NULL_CRC16_def sample_header_body_def)

lemma crc_sample_body: "crc16_ccitt sample_header_body = [0xD3, 0x4C]"
  by (simp add: sample_header_body_def crc16_ccitt_def crc16_step_def Let_def)

lemma crc_sample_placeholder:
  "crc16_ccitt (sample_header_body @ [0xFF, 0xFF]) = [0xFB, 0x68]"
  by (simp add: sample_header_body_def crc16_ccitt_def crc16_step_def Let_def)

lemma sample_to_bytes: "to_bytes sample_header = Inr sample_header_bytes"
  by (simp add: to_bytes_def sample_pack length_sample_header_body crc_sample_body
      sample_header_bytes_def)

lemma sample_codec_header: "codec_header sample_header"
proof -
  have "codec_header (update 1700000060 (Header sample_uid 1700000000) payload_x)"
    by (intro codec_header.intros) (simp_all add: fits_def payload_x_def)
  then show ?thesis by (simp add: sample_header_eq)
qed

lemma sample_from_bytes: "from_bytes sample_header_bytes = Inr sample_header"
  using packable_roundtrip[OF codec_header_packable[OF sample_codec_header]]
  by (simp add: sample_to_bytes)

text \<open>The round trip at \<open>sample_header\<close>, an updated fresh header.\<close>

theorem header_roundtrip_witness:
  "codec_header sample_header
   \<and> (\<exists>bs. to_bytes sample_header = Inr bs \<and> from_bytes bs = Inr sample_header)"
  using header_roundtrip[of sample_header] sample_codec_header by simp

subsection \<open>Header.to_bytes\<close>

lemma struct_pack_shape:
  assumes "struct_pack m v u t p l c k = Inr dat"
  shows "length dat = 32" and "drop 30 dat = pack_s 2 k"
  using assms
  by (auto simp: struct_pack_def split: if_splits simp del: le_bytes.simps le_bytes_numeral le_bytes_1)

text \<open>
  C5, as the code has it: whenever \<^verbatim>\<open>to_bytes\<close> returns, the result has 32 bytes, its
  last two bytes are the checksum of its first 30 bytes, and these 30 bytes are the first
  30 bytes of the buffer packed with the placeholder; the placeholder itself (the last two
  bytes of that buffer) is dropped before the checksum is computed.
\<close>

theorem header_checksum_covers_prefix:
  assumes "to_bytes h = Inr bs"
  shows "length bs = 32
     \<and> drop 30 bs = crc16_ccitt (take 30 bs)
     \<and> (\<exists>dat. struct_pack (magic h) (version h) (uuid_bytes (uid h)) (timestamp h)
                 (data_page h) (data_length h) (data_checksum h) NULL_CRC16 = Inr dat
              \<and> drop 30 dat = NULL_CRC16 \<and> take 30 bs = take 30 dat)"
proof -
  from assms obtain dat where
    dat: "struct_pack (magic h) (version h) (uuid_bytes (uid h)) (timestamp h)
            (data_page h) (data_length h) (data_checksum h) NULL_CRC16 = Inr dat"
    and bs: "bs = take (length dat - 2) dat @ crc16_ccitt (take (length dat - 2) dat)"
    by (auto simp: to_bytes_def split: sum.splits)
  have len: "length dat = 32" and last2: "drop 30 dat = pack_s 2 NULL_CRC16"
    using struct_pack_shape[OF dat] by simp_all
  have bs': "bs = take 30 dat @ crc16_ccitt (take 30 dat)"
    using bs len by simp
  have l30: "length (take 30 dat) = 30" using len by simp
  have "length bs = 32" using l30 by (simp add: bs')
  moreover have "take 30 bs = take 30 dat" using l30 by (simp add: bs')
  moreover have "drop 30 bs = crc16_ccitt (take 30 dat)" using l30 by (simp add: bs')
  moreover have "drop 30 dat = NULL_CRC16" using last2 by (simp add: NULL_CRC16_def)
  ultimately show ?thesis using dat by simp
qed

text \<open>The same at \<open>sample_header\<close>.\<close>

theorem header_checksum_covers_prefix_witness:
  "to_bytes sample_header = Inr sample_header_bytes
   \<and> length sample_header_bytes = 32
   \<and> drop 30 sample_header_bytes = crc16_ccitt (take 30 sample_header_bytes)"
  using header_checksum_covers_prefix[of sample_header sample_header_bytes] sample_to_bytes
  by simp

text \<open>
  C5 as stated fails: for \<open>sample_header\<close> the checksum stored in the last two bytes is
  \<open>0xD34C\<close>, while the checksum over the packed buffer with the placeholder included is
  \<open>0xFB68\<close>.
\<close>

theorem two_pass_checksum_differs:
  "to_bytes sample_header = Inr sample_header_bytes
   \<and> drop 30 sample_header_bytes = [0xD3, 0x4C]
   \<and> spec_two_pass_checksum sample_header = Inr [0xFB, 0x68]
   \<and> [0xD3, 0x4C] \<noteq> [0xFB, 0x68 :: byte]"
  by (simp add: sample_to_bytes spec_two_pass_checksum_def sample_pack crc_sample_placeholder
      sample_header_bytes_def length_sample_header_body)

subsection \<open>Header.from_bytes\<close>

text \<open>
  C6: on a 32-byte input, \<^verbatim>\<open>from_bytes\<close> raises \<^verbatim>\<open>InvalidMagic\<close> exactly when the
  first two bytes are not the magic; otherwise \<^verbatim>\<open>InvalidVersion\<close> exactly when the
  third byte is not 1; otherwise \<^verbatim>\<open>InvalidChecksum\<close> exactly when the last two bytes
  are not the checksum of the first 30; otherwise it returns a header.
\<close>

theorem from_bytes_check_order:
  assumes "length v = 32"
  shows "(from_bytes v = Inl InvalidMagic \<longleftrightarrow> take 2 v \<noteq> [0xC0, 0xC0])
    \<and> (from_bytes v = Inl InvalidVersion \<longleftrightarrow> take 2 v = [0xC0, 0xC0] \<and> v ! 2 \<noteq> 1)
    \<and> (from_bytes v = Inl InvalidChecksum \<longleftrightarrow>
          take 2 v = [0xC0, 0xC0] \<and> v ! 2 = 1 \<and> drop 30 v \<noteq> crc16_ccitt (take 30 v))
    \<and> ((\<exists>h. from_bytes v = Inr h) \<longleftrightarrow>
          take 2 v = [0xC0, 0xC0] \<and> v ! 2 = 1 \<and> drop 30 v = crc16_ccitt (take 30 v))"
proof -
  have v2: "uint (v ! 2) \<noteq> cls_version \<longleftrightarrow> v ! 2 \<noteq> 1"
    by (metis cls_version_def uint_1_eq word_uint_eq_iff)
  show ?thesis
    using assms
    by (auto simp: from_bytes_def struct_unpack_def struct_size_def cls_magic_def v2
        split: sum.splits prod.splits)
qed

lemma blank_header_data: "take 2 (replicate 32 (0xFF :: byte)) \<noteq> [0xC0, 0xC0]"
proof -
  have "replicate 2 (0xFF :: byte) = [0xFF, 0xFF]" by (simp add: numeral_2_eq_2)
  then show ?thesis by simp
qed

lemma length_sample_header_bytes: "length sample_header_bytes = 32"
  by (simp add: sample_header_bytes_def length_sample_header_body)

text \<open>The checks on a blank buffer and on the bytes of \<open>sample_header\<close>.\<close>

theorem from_bytes_check_order_witness:
  "length (replicate 32 (0xFF :: byte)) = 32
   \<and> from_bytes (replicate 32 0xFF) = Inl InvalidMagic
   \<and> length sample_header_bytes = 32
   \<and> from_bytes sample_header_bytes = Inr sample_header
   \<and> take 2 sample_header_bytes = [0xC0, 0xC0] \<and> sample_header_bytes ! 2 = 1
   \<and> drop 30 sample_header_bytes = crc16_ccitt (take 30 sample_header_bytes)"
proof -
  have l1: "length (replicate 32 (0xFF :: byte)) = 32" by simp
  have "from_bytes (replicate 32 0xFF) = Inl InvalidMagic"
    using from_bytes_check_order[OF l1] blank_header_data by blast
  moreover have "take 2 sample_header_bytes = [0xC0, 0xC0] \<and> sample_header_bytes ! 2 = 1
      \<and> drop 30 sample_header_bytes = crc16_ccitt (take 30 sample_header_bytes)"
    using from_bytes_check_order[OF length_sample_header_bytes] sample_from_bytes by blast
  ultimately show ?thesis
    using l1 length_sample_header_bytes sample_from_bytes by blast
qed

subsection \<open>The checksum detects a changed byte\<close>

lemma bit_FF: "bit (0xFF :: 16 word) n \<longleftrightarrow> n < 8"
proof -
  have "bit (mask 8 :: 16 word) n \<longleftrightarrow> n < 8" by (auto simp add: bit_mask_iff)
  moreover have "(mask 8 :: 16 word) = 0xFF" by (simp add: mask_eq_exp_minus_1)
  ultimately show ?thesis by simp
qed

lemma bit_0F: "bit (0x0F :: 16 word) n \<longleftrightarrow> n < 4"
proof -
  have "bit (mask 4 :: 16 word) n \<longleftrightarrow> n < 4" by (auto simp add: bit_mask_iff)
  moreover have "(mask 4 :: 16 word) = 0x0F" by (simp add: mask_eq_exp_minus_1)
  ultimately show ?thesis by simp
qed

lemma bit16_out: "16 \<le> n \<Longrightarrow> bit (c :: 16 word) n = False"
  by (auto dest: bit_imp_le_length)

lemma bit8_out: "8 \<le> n \<Longrightarrow> bit (c :: 8 word) n = False"
  by (auto dest: bit_imp_le_length)

lemma all8: "(\<forall>n<8. P n) \<longleftrightarrow> P 0 \<and> P 1 \<and> P 2 \<and> P 3 \<and> P 4 \<and> P 5 \<and> P 6 \<and> P (7::nat)"
proof -
  have "(\<forall>n<8. P n) \<longleftrightarrow> (\<forall>n<Suc (Suc (Suc (Suc (Suc (Suc (Suc (Suc 0))))))). P n)"
    by (simp add: eval_nat_numeral)
  also have "\<dots> \<longleftrightarrow> P 0 \<and> P 1 \<and> P 2 \<and> P 3 \<and> P 4 \<and> P 5 \<and> P 6 \<and> P 7"
    by (simp only: All_less_Suc) (auto simp: eval_nat_numeral)
  finally show ?thesis .
qed

lemma all16:
  "(\<forall>n<16. P n) \<longleftrightarrow> (\<forall>n<8. P n) \<and> (\<forall>n<8. P (8 + n :: nat))"
proof
  assume "\<forall>n<16. P n"
  then show "(\<forall>n<8. P n) \<and> (\<forall>n<8. P (8 + n))" by simp
next
  assume a: "(\<forall>n<8. P n) \<and> (\<forall>n<8. P (8 + n))"
  show "\<forall>n<16. P n"
  proof (intro allI impI)
    fix n :: nat assume "n < 16"
    show "P n"
    proof (cases "n < 8")
      case True then show ?thesis using a by simp
    next
      case False
      then have "n - 8 < 8" "n = 8 + (n - 8)" using \<open>n < 16\<close> by simp_all
      then show ?thesis using a by metis
    qed
  qed
qed

lemma word16_eq_iff: "(a :: 16 word) = b \<longleftrightarrow> (\<forall>n<16. bit a n = bit b n)"
  by (auto intro: bit_word_eqI)

lemma word8_eq_iff: "(a :: 8 word) = b \<longleftrightarrow> (\<forall>n<8. bit a n = bit b n)"
  by (auto intro: bit_word_eqI)

lemmas bits16 = word16_eq_iff all16 all8 bit_simps bit_FF bit_0F bit16_out bit8_out


lemma step_decomp: "crc16_step c d = crc_mix c (crc_x (crc_t c d))"
  by (simp add: crc16_step_def crc_mix_def crc_x_def crc_t_def Let_def)

lemma crc_t_hi: "drop_bit 8 (crc_t c d) = 0"
  by (simp add: crc_t_def bits16)

lemma crc_x_hi: "drop_bit 8 t = 0 \<Longrightarrow> drop_bit 8 (crc_x t) = 0"
  by (simp add: crc_x_def bits16)

lemma crc_x_inj: "crc_x t1 = crc_x t2 \<Longrightarrow> t1 = t2"
  by (simp add: crc_x_def bits16) blast



lemma crc_mix_xor: "drop_bit 8 x = 0 \<Longrightarrow> crc_mix c x = drop_bit 8 c XOR crc_spread x"
  by (simp add: crc_mix_def crc_spread_def bits16)

lemma crc_mix_hi: "drop_bit 8 x = 0 \<Longrightarrow> drop_bit 8 (crc_mix c x) = crc_fold x"
  by (simp add: crc_mix_def crc_fold_def bits16)

lemma crc_fold_invol: "drop_bit 8 x = 0 \<Longrightarrow> crc_fold (crc_fold x) = x"
  by (simp add: crc_fold_def bits16) blast

lemma crc_mix_inj_x:
  assumes "drop_bit 8 x1 = 0" "drop_bit 8 x2 = 0" "crc_mix c1 x1 = crc_mix c2 x2"
  shows "x1 = x2"
proof -
  have "crc_fold x1 = crc_fold x2"
    using assms crc_mix_hi by metis
  then have "crc_fold (crc_fold x1) = crc_fold (crc_fold x2)" by simp
  then show ?thesis using assms by (simp add: crc_fold_invol)
qed

lemma xor_cancel_right: "(a :: 16 word) XOR m = b XOR m \<Longrightarrow> a = b"
  by (metis bit.xor_self xor.assoc xor.right_neutral)

lemma xor_cancel_left: "m XOR (a :: 16 word) = m XOR b \<Longrightarrow> a = b"
  by (metis xor_cancel_right xor.commute)

lemma crc_mix_inj_c:
  assumes "drop_bit 8 x = 0" "crc_mix c1 x = crc_mix c2 x"
  shows "drop_bit 8 c1 = drop_bit 8 c2"
  using assms by (simp add: crc_mix_xor xor_cancel_right)

lemma crc_t_inj_d: "crc_t c d1 = crc_t c d2 \<Longrightarrow> d1 = d2"
proof -
  assume "crc_t c d1 = crc_t c d2"
  then have "(ucast d1 :: 16 word) = ucast d2"
    unfolding crc_t_def by (rule xor_cancel_right)
  then show ?thesis by (simp add: word8_eq_iff bits16)
qed

lemma crc_t_inj_c: "crc_t c1 d = crc_t c2 d \<Longrightarrow> c1 AND 0xFF = c2 AND 0xFF"
  unfolding crc_t_def by (rule xor_cancel_left)

lemma split16: "drop_bit 8 c1 = drop_bit 8 c2 \<Longrightarrow> c1 AND 0xFF = c2 AND 0xFF \<Longrightarrow> (c1 :: 16 word) = c2"
  by (simp add: bits16)

lemma crc16_step_inj_data: "crc16_step c d1 = crc16_step c d2 \<Longrightarrow> d1 = d2"
  by (metis step_decomp crc_mix_inj_x crc_x_hi crc_t_hi crc_x_inj crc_t_inj_d)

lemma crc16_step_inj_crc:
  assumes "crc16_step c1 d = crc16_step c2 d"
  shows "c1 = c2"
proof -
  have m: "crc_mix c1 (crc_x (crc_t c1 d)) = crc_mix c2 (crc_x (crc_t c2 d))"
    using assms by (simp add: step_decomp)
  have hi: "drop_bit 8 (crc_x (crc_t c1 d)) = 0" "drop_bit 8 (crc_x (crc_t c2 d)) = 0"
    by (simp_all add: crc_x_hi crc_t_hi)
  have x: "crc_x (crc_t c1 d) = crc_x (crc_t c2 d)"
    using hi m by (rule crc_mix_inj_x)
  then have "crc_t c1 d = crc_t c2 d" by (rule crc_x_inj)
  then have lo: "c1 AND 0xFF = c2 AND 0xFF" by (rule crc_t_inj_c)
  have "drop_bit 8 c1 = drop_bit 8 c2"
    using hi(2) m unfolding x by (rule crc_mix_inj_c)
  then show ?thesis using lo by (rule split16)
qed

lemma foldl_crc_inj: "foldl crc16_step c1 ds = foldl crc16_step c2 ds \<Longrightarrow> c1 = c2"
  by (induction ds arbitrary: c1 c2) (auto dest: crc16_step_inj_crc)

lemma crc_out_inj:
  "[ucast (drop_bit 8 c1) :: byte, ucast (c1 AND 0xFF)] = [ucast (drop_bit 8 c2), ucast (c2 AND 0xFF)]
     \<Longrightarrow> (c1 :: 16 word) = c2"
  by (simp add: word8_eq_iff bits16)

lemma crc16_ccitt_update:
  assumes "i < length xs" "x \<noteq> xs ! i"
  shows "crc16_ccitt (xs[i := x]) \<noteq> crc16_ccitt xs"
proof
  assume eq: "crc16_ccitt (xs[i := x]) = crc16_ccitt xs"
  have xs: "xs = take i xs @ xs ! i # drop (Suc i) xs"
    using assms(1) by (simp add: id_take_nth_drop)
  have xs': "xs[i := x] = take i xs @ x # drop (Suc i) xs"
    using assms(1) by (simp add: upd_conv_take_nth_drop)
  define c where "c = foldl crc16_step 0xFFFF (take i xs)"
  have "foldl crc16_step 0xFFFF (xs[i := x]) = foldl crc16_step 0xFFFF xs"
    using eq unfolding crc16_ccitt_def Let_def by (rule crc_out_inj)
  then have "foldl crc16_step (crc16_step c x) (drop (Suc i) xs)
      = foldl crc16_step (crc16_step c (xs ! i)) (drop (Suc i) xs)"
    by (subst (asm) xs', subst (asm) (3) xs) (simp add: c_def)
  then have "crc16_step c x = crc16_step c (xs ! i)" by (rule foldl_crc_inj)
  then have "x = xs ! i" by (rule crc16_step_inj_data)
  then show False using assms(2) by simp
qed


subsection \<open>Single-bit flips\<close>

lemma flip_bit_changes: "k < 8 \<Longrightarrow> flip_bit k (b :: byte) \<noteq> b"
proof
  assume k: "k < 8" and eq: "flip_bit k b = b"
  have "bit (flip_bit k b) k \<longleftrightarrow> \<not> bit b k"
    using k by (simp add: bit_flip_bit_iff)
  then show False using eq by simp
qed

lemma from_bytes_32:
  assumes "length v = 32"
  shows "from_bytes v =
     (if take 2 v \<noteq> [0xC0, 0xC0] then Inl InvalidMagic
      else if v ! 2 \<noteq> 1 then Inl InvalidVersion
      else if drop 30 v \<noteq> crc16_ccitt (take 30 v) then Inl InvalidChecksum
      else Inr \<lparr>magic = bytes_slice 0 2 v, version = le_int (bytes_slice 2 3 v),
                uid = UUID (bytes_slice 3 19 v), timestamp = le_int (bytes_slice 21 25 v),
                data_page = le_int (bytes_slice 25 26 v),
                data_length = le_int (bytes_slice 26 28 v),
                data_checksum = bytes_slice 28 30 v\<rparr>)"
proof -
  have v2: "uint (v ! 2) \<noteq> cls_version \<longleftrightarrow> v ! 2 \<noteq> 1"
    by (metis cls_version_def uint_1_eq word_uint_eq_iff)
  show ?thesis
    using assms
    by (auto simp: from_bytes_def struct_unpack_def struct_size_def cls_magic_def v2)
qed

text \<open>
  C7: in a 32-byte buffer that decodes, flipping any single bit makes decoding fail, with
  the error of the region the bit is in: \<^verbatim>\<open>InvalidMagic\<close> for the two magic bytes,
  \<^verbatim>\<open>InvalidVersion\<close> for the version byte, \<^verbatim>\<open>InvalidChecksum\<close> for every other byte,
  the padding and the checksum bytes themselves included.
\<close>

theorem single_bit_flip_detected:
  assumes ok: "from_bytes b = Inr h" and i: "i < 32" and k: "k < 8"
  shows "from_bytes (flip_bit_at i k b) =
     Inl (if i < 2 then InvalidMagic else if i = 2 then InvalidVersion else InvalidChecksum)"
proof -
  have len: "length b = 32"
    using ok by (auto simp: from_bytes_def struct_unpack_def struct_size_def split: if_splits)
  define b' where "b' = flip_bit_at i k b"
  have len': "length b' = 32" using len by (simp add: b'_def flip_bit_at_def)
  have valid: "take 2 b = [0xC0, 0xC0]" "b ! 2 = 1" "drop 30 b = crc16_ccitt (take 30 b)"
    using ok from_bytes_32[OF len] by (auto split: if_splits)
  have changed: "b' ! i \<noteq> b ! i"
    using i len k by (simp add: b'_def flip_bit_at_def flip_bit_changes)
  have same: "\<And>j. j \<noteq> i \<Longrightarrow> b' ! j = b ! j"
    by (simp add: b'_def flip_bit_at_def)
  consider (magic) "i < 2" | (version) "i = 2" | (body) "2 < i" "i < 30" | (crc) "30 \<le> i"
    by linarith
  then show ?thesis
  proof cases
    case magic
    have "take 2 b' \<noteq> take 2 b"
    proof
      assume "take 2 b' = take 2 b"
      then have "take 2 b' ! i = take 2 b ! i" by simp
      then show False using magic changed by simp
    qed
    then show ?thesis
      using magic valid(1) from_bytes_32[OF len'] by (simp add: b'_def)
  next
    case version
    have "take 2 b' = take 2 b"
      using version by (simp add: b'_def flip_bit_at_def)
    moreover have "b' ! 2 \<noteq> 1" using changed version valid(2) by simp
    ultimately show ?thesis
      using version valid(1) from_bytes_32[OF len'] by (simp add: b'_def)
  next
    case body
    have t2: "take 2 b' = take 2 b"
      using body by (simp add: b'_def flip_bit_at_def)
    have v2: "b' ! 2 = 1" using same[of 2] body valid(2) by simp
    have d: "drop 30 b' = drop 30 b"
      using body by (simp add: b'_def flip_bit_at_def)
    have "take 30 b' = (take 30 b)[i := b' ! i]"
      using body len by (simp add: b'_def flip_bit_at_def take_update_swap)
    moreover have "crc16_ccitt ((take 30 b)[i := b' ! i]) \<noteq> crc16_ccitt (take 30 b)"
      using body len changed by (intro crc16_ccitt_update) simp_all
    ultimately have "drop 30 b' \<noteq> crc16_ccitt (take 30 b')"
      using d valid(3) by simp
    then show ?thesis
      using body t2 v2 valid(1) from_bytes_32[OF len'] by (simp add: b'_def)
  next
    case crc
    have t2: "take 2 b' = take 2 b"
      using crc by (simp add: b'_def flip_bit_at_def)
    have v2: "b' ! 2 = 1" using same[of 2] crc valid(2) by simp
    have t30: "take 30 b' = take 30 b"
      using crc by (simp add: b'_def flip_bit_at_def)
    have "drop 30 b' \<noteq> drop 30 b"
    proof
      assume "drop 30 b' = drop 30 b"
      then have "drop 30 b' ! (i - 30) = drop 30 b ! (i - 30)" by simp
      then show False using crc changed len len' i by simp
    qed
    then have "drop 30 b' \<noteq> crc16_ccitt (take 30 b')"
      using t30 valid(3) by simp
    then show ?thesis
      using crc t2 v2 valid(1) from_bytes_32[OF len'] by (simp add: b'_def)
  qed
qed

text \<open>One flip in each region of the bytes of \<open>sample_header\<close>.\<close>

theorem single_bit_flip_detected_witness:
  "from_bytes sample_header_bytes = Inr sample_header
   \<and> from_bytes (flip_bit_at 1 7 sample_header_bytes) = Inl InvalidMagic
   \<and> from_bytes (flip_bit_at 2 0 sample_header_bytes) = Inl InvalidVersion
   \<and> from_bytes (flip_bit_at 21 3 sample_header_bytes) = Inl InvalidChecksum
   \<and> from_bytes (flip_bit_at 31 0 sample_header_bytes) = Inl InvalidChecksum"
  using sample_from_bytes
    single_bit_flip_detected[OF sample_from_bytes, of 1 7]
    single_bit_flip_detected[OF sample_from_bytes, of 2 0]
    single_bit_flip_detected[OF sample_from_bytes, of 21 3]
    single_bit_flip_detected[OF sample_from_bytes, of 31 0]
  by simp

subsection \<open>Header.update\<close>

text \<open>
  C8: for every header \<open>h\<close> and payload \<open>d\<close>, \<^verbatim>\<open>Header.update(h, data=d)\<close> is a header
  whose \<open>data_length\<close> is the length of \<open>d\<close>, whose \<open>data_checksum\<close> is the checksum of
  \<open>d\<close> and whose \<open>timestamp\<close> is the clock reading, while \<open>magic\<close>, \<open>version\<close>, \<open>uid\<close>
  and \<open>data_page\<close> are those of \<open>h\<close>. The header is a value: \<open>update\<close> returns a new one
  and \<open>h\<close> is what it was.
\<close>

theorem update_fields:
  "data_length (update now h d) = int (length d)
   \<and> data_checksum (update now h d) = crc16_ccitt d
   \<and> timestamp (update now h d) = now
   \<and> magic (update now h d) = magic h
   \<and> version (update now h d) = version h
   \<and> uid (update now h d) = uid h
   \<and> data_page (update now h d) = data_page h"
  by (simp add: update_def)

subsection \<open>The key-value accessors\<close>

text \<open>
  C9, as the code has it: while the controller is not connected, each of \<^verbatim>\<open>has\<close>,
  \<^verbatim>\<open>get\<close>, \<^verbatim>\<open>set\<close>, \<^verbatim>\<open>setdefault\<close> and \<^verbatim>\<open>delete\<close> raises \<^verbatim>\<open>MemoryNotConnected\<close>
  and leaves the whole state, the record included, as it was. While it is connected and
  holds a record that lacks the key, \<^verbatim>\<open>get\<close> without a default (the default is then the
  \<^verbatim>\<open>Ellipsis\<close> marker) raises \<^verbatim>\<open>KeyError\<close>, and \<^verbatim>\<open>get\<close> with a default other than
  that marker returns the default.
\<close>

theorem facade_gate:
  "(\<not> connected s \<longrightarrow>
      has key s = (Inl MemoryNotConnected, s)
      \<and> get key dflt s = (Inl MemoryNotConnected, s)
      \<and> set_value key val s = (Inl MemoryNotConnected, s)
      \<and> setdefault key dflt s = (Inl MemoryNotConnected, s)
      \<and> delete key s = (Inl MemoryNotConnected, s))
   \<and> (connected s \<and> config s = Some m \<and> key \<notin> dom m \<longrightarrow>
        get key Ellipsis s = (Inl KeyError, s)
        \<and> (dflt \<noteq> Ellipsis \<longrightarrow> get key dflt s = (Inr dflt, s)))"
  by (auto simp: has_def get_def set_value_def setdefault_def delete_def)

lemma sample_connected_fields:
  "connected sample_connected"
  "config sample_connected = Some [''name'' \<mapsto> PyStr ''x'']"
  "header sample_connected = Some (Header sample_uid 1700000000)"
  "last_config sample_connected = None"
  "memory sample_connected = blank_device"
  by (simp_all add: sample_connected_def CocoaMemory_def)

lemma offset_not_in_sample: "''offset'' \<notin> dom [''name'' \<mapsto> PyStr ''x'' :: int pyobj]"
  by simp

text \<open>
  The accessors on a controller that was never attached, and \<^verbatim>\<open>get\<close> of a missing key
  on a connected one.
\<close>

theorem facade_gate_witness:
  "\<not> connected (CocoaMemory blank_device :: int cocoa_memory)
   \<and> has ''name'' (CocoaMemory blank_device :: int cocoa_memory)
       = (Inl MemoryNotConnected, CocoaMemory blank_device)
   \<and> set_value ''name'' (PyStr ''y'') (CocoaMemory blank_device :: int cocoa_memory)
       = (Inl MemoryNotConnected, CocoaMemory blank_device)
   \<and> connected sample_connected
   \<and> config sample_connected = Some [''name'' \<mapsto> PyStr ''x'']
   \<and> ''offset'' \<notin> dom [''name'' \<mapsto> PyStr ''x'' :: int pyobj]
   \<and> get ''offset'' Ellipsis sample_connected = (Inl KeyError, sample_connected)
   \<and> get ''offset'' (Obj 5) sample_connected = (Inr (Obj 5), sample_connected)"
proof -
  have d: "\<not> connected (CocoaMemory blank_device :: int cocoa_memory)"
    by (simp add: CocoaMemory_def)
  have "(Obj 5 :: int pyobj) \<noteq> Ellipsis" by simp
  then show ?thesis
    using d sample_connected_fields(1,2) offset_not_in_sample
      facade_gate[of "CocoaMemory blank_device :: int cocoa_memory" "''name''" Ellipsis
        "PyStr ''y''" Map.empty]
      facade_gate[of sample_connected "''offset''" "Obj 5" Ellipsis "[''name'' \<mapsto> PyStr ''x'']"]
    by blast
qed

text \<open>
  C10: while connected, \<^verbatim>\<open>delete\<close> of a key that the record lacks raises nothing and
  leaves the whole state as it was, the record and the last-persisted snapshot included.
\<close>

theorem delete_absent_noop:
  "connected s \<Longrightarrow> config s = Some m \<Longrightarrow> key \<notin> dom m \<Longrightarrow> delete key s = (Inr (), s)"
  by (simp add: delete_def)

text \<open>Deleting a key that the sample record lacks.\<close>

theorem delete_absent_noop_witness:
  "connected sample_connected
   \<and> config sample_connected = Some [''name'' \<mapsto> PyStr ''x'']
   \<and> ''offset'' \<notin> dom [''name'' \<mapsto> PyStr ''x'' :: int pyobj]
   \<and> delete ''offset'' sample_connected = (Inr (), sample_connected)"
  using delete_absent_noop[OF sample_connected_fields(1,2) offset_not_in_sample]
    sample_connected_fields(1,2) offset_not_in_sample
  by blast

subsection \<open>The device and the sample controllers\<close>

lemma fetch_place_same: "fetch (place a bs c) a (int (length bs)) = bs"
  by (auto simp: fetch_def place_def intro!: nth_equalityI)

lemma fetch_place_disjoint:
  "a' + n \<le> a \<or> a + int (length bs) \<le> a' \<Longrightarrow> fetch (place a bs c) a' n = fetch c a' n"
  by (auto simp: fetch_def place_def)

lemma fetch_const: "fetch (\<lambda>_. x) a n = replicate (nat n) x"
  by (simp add: fetch_def map_replicate_const)

lemma mem_write_cases:
  assumes "mem_write a bs d = (r, d')"
  shows "(r = Inr () \<and> written d' = written d @ [(a, bs)] \<and> cells d' = place a bs (cells d))
       \<or> (r = Inl CommandError \<and> written d' = written d \<and> cells d' = cells d)"
  using assms by (auto simp: mem_write_def Let_def split: if_splits)

lemma to_bytes_error: "to_bytes h = Inl e \<Longrightarrow> e = StructError"
  by (auto simp: to_bytes_def struct_pack_def split: sum.splits if_splits)

subsection \<open>save\<close>

text \<open>
  C3: when \<^verbatim>\<open>save\<close> returns normally, the device has applied exactly two more writes, first
  the serialized payload at the payload address and then the encoded new header at address
  0, the new header is the current one and the last-persisted snapshot is the current
  record. When \<^verbatim>\<open>save\<close> raises, the current header and the last-persisted snapshot are
  what they were, and the device has applied no write or the payload write only: the
  header is never written without the payload before it.
\<close>

theorem save_write_order:
  assumes "save env s = (r, s')"
  shows "(r = Inr () \<longrightarrow>
           (\<exists>cfg h header_bytes.
              msgpack_dumps env (config s) = Inr cfg \<and> header s = Some h
              \<and> to_bytes (update (saved_at env) h cfg) = Inr header_bytes
              \<and> written (memory s') = written (memory s)
                   @ [(get_data_address (update (saved_at env) h cfg), cfg), (0, header_bytes)]
              \<and> header s' = Some (update (saved_at env) h cfg)
              \<and> last_config s' = config s \<and> config s' = config s))
       \<and> (r \<noteq> Inr () \<longrightarrow>
            header s' = header s \<and> last_config s' = last_config s \<and> config s' = config s
            \<and> (written (memory s') = written (memory s)
               \<or> (\<exists>cfg h. msgpack_dumps env (config s) = Inr cfg \<and> header s = Some h
                     \<and> written (memory s') = written (memory s)
                          @ [(get_data_address (update (saved_at env) h cfg), cfg)])))"
proof (cases "msgpack_dumps env (config s)")
  case (Inl e)
  then show ?thesis using assms by (auto simp: save_def)
next
  case (Inr cfg)
  show ?thesis
  proof (cases "header s")
    case None
    then show ?thesis using assms Inr by (auto simp: save_def)
  next
    case (Some h)
    define nh where "nh = update (saved_at env) h cfg"
    obtain r1 d1 where w1: "mem_write (get_data_address nh) cfg (memory s) = (r1, d1)"
      by (cases "mem_write (get_data_address nh) cfg (memory s)")
    note c1 = mem_write_cases[OF w1]
    show ?thesis
    proof (cases r1)
      case (Inl e1)
      then show ?thesis using assms Inr Some w1 c1 by (auto simp: save_def nh_def)
    next
      case r1ok: (Inr u1)
      show ?thesis
      proof (cases "to_bytes nh")
        case (Inl e2)
        then show ?thesis
          using assms Inr Some w1 c1 r1ok by (auto simp: save_def nh_def[symmetric])
      next
        case tb: (Inr hb)
        obtain r2 d2 where w2: "mem_write 0 hb d1 = (r2, d2)"
          by (cases "mem_write 0 hb d1")
        note c2 = mem_write_cases[OF w2]
        show ?thesis
        proof (cases r2)
          case (Inl e3)
          then show ?thesis
            using assms Inr Some w1 c1 r1ok tb w2 c2
            by (auto simp: save_def nh_def[symmetric])
        next
          case r2ok: (Inr u2)
          then show ?thesis
            using assms Inr Some w1 c1 r1ok tb w2 c2
            by (auto simp: save_def nh_def[symmetric])
        qed
      qed
    qed
  qed
qed

lemma sample_env_fields:
  "uuid1 sample_env = sample_uid" "created_at sample_env = 1700000000"
  "saved_at sample_env = 1700000060" "generate_name sample_env = ''x''"
  "msgpack_dumps sample_env = sample_dumps" "msgpack_loads sample_env = sample_loads"
  by (simp_all add: sample_env_def)

lemma sample_dumps_x: "sample_dumps (Some [''name'' \<mapsto> PyStr ''x'']) = Inr payload_x"
  by (simp add: sample_dumps_def)

lemma sample_data_address: "get_data_address sample_header = 256"
  by (simp add: get_data_address_def sample_header_def)

lemma sample_save:
  "save sample_env sample_connected =
     (Inr (), sample_connected
        \<lparr>memory := saved_device\<lparr>written := [(256, payload_x), (0, sample_header_bytes)]\<rparr>,
         header := Some sample_header, last_config := Some [''name'' \<mapsto> PyStr ''x'']\<rparr>)"
  by (simp add: save_def sample_connected_fields sample_env_fields sample_dumps_x
      sample_header_eq sample_data_address sample_to_bytes mem_write_def next_fails_def
      blank_device_def saved_device_def)

lemma faulty_connected_fields:
  "config faulty_connected = Some [''name'' \<mapsto> PyStr ''x'']"
  "header faulty_connected = Some (Header sample_uid 1700000000)"
  "last_config faulty_connected = None"
  "memory faulty_connected = blank_device\<lparr>faults := [False, True]\<rparr>"
  by (simp_all add: faulty_connected_def sample_connected_fields)

lemma faulty_save: "fst (save sample_env faulty_connected) = Inl CommandError"
  by (simp add: save_def faulty_connected_fields sample_env_fields sample_dumps_x
      sample_header_eq sample_data_address sample_to_bytes mem_write_def next_fails_def
      blank_device_def)

text \<open>
  A save that succeeds, and one whose header write fails after the payload write.
\<close>

theorem save_write_order_witness:
  "fst (save sample_env sample_connected) = Inr ()
   \<and> written (memory (snd (save sample_env sample_connected)))
       = [(256, payload_x), (0, sample_header_bytes)]
   \<and> header (snd (save sample_env sample_connected)) = Some sample_header
   \<and> last_config (snd (save sample_env sample_connected)) = config sample_connected
   \<and> fst (save sample_env faulty_connected) = Inl CommandError
   \<and> header (snd (save sample_env faulty_connected)) = header faulty_connected
   \<and> last_config (snd (save sample_env faulty_connected)) = last_config faulty_connected"
proof -
  have a: "save sample_env faulty_connected
      = (fst (save sample_env faulty_connected), snd (save sample_env faulty_connected))"
    by simp
  have "fst (save sample_env faulty_connected) \<noteq> Inr ()"
    by (simp add: faulty_save)
  then have "header (snd (save sample_env faulty_connected)) = header faulty_connected
      \<and> last_config (snd (save sample_env faulty_connected)) = last_config faulty_connected"
    using save_write_order[OF a] by blast
  moreover have "last_config (snd (save sample_env sample_connected)) = config sample_connected"
  proof -
    obtain S where S: "save sample_env sample_connected = (Inr (), S)"
      using sample_save by blast
    have "last_config S = config sample_connected"
      using save_write_order[OF S] by blast
    then show ?thesis by (simp add: S)
  qed
  ultimately show ?thesis
    by (simp add: sample_save faulty_save saved_device_def)
qed

subsection \<open>Attaching an uninitialized device\<close>

lemma attached_uninitialized:
  assumes "mem_read 0 (int struct_size) (memory s) = (Inr header_data, d)"
    and "from_bytes header_data = Inl e" and "is_HeaderError e"
  shows "attached env s =
     (case save env
             (s\<lparr>memory := d, connected := True,
                last_header := Some (Header (uuid1 env) (created_at env)),
                header := Some (Header (uuid1 env) (created_at env)),
                config := Some [''name'' \<mapsto> PyStr (generate_name env)]\<rparr>) of
        (Inl e', s3) \<Rightarrow> (Inl e', s3)
      | (Inr u, s3) \<Rightarrow> attach_done s3)"
  using assms by (simp add: attached_def Let_def)

lemma save_frame:
  "last_header (snd (save env s)) = last_header s"
  "connected (snd (save env s)) = connected s"
  "config (snd (save env s)) = config s"
  by (auto simp: save_def Let_def split: sum.splits option.splits prod.splits)

lemma save_error_kind:
  assumes dumps: "\<forall>c e'. msgpack_dumps env c = Inl e' \<longrightarrow> \<not> is_HeaderError e'"
    and err: "fst (save env s) = Inl e"
  shows "\<not> is_HeaderError e"
proof -
  obtain r s' where rs: "save env s = (r, s')" by (cases "save env s")
  have False if h: "is_HeaderError e"
  proof (cases "msgpack_dumps env (config s)")
    case (Inl e0)
    then have "e = e0" using err by (simp add: save_def)
    then show False using dumps Inl h by blast
  next
    case (Inr cfg)
    show False
    proof (cases "header s")
      case None
      then show False using err Inr h by (simp add: save_def)
    next
      case (Some h0)
      define nh where "nh = update (saved_at env) h0 cfg"
      obtain r1 d1 where w1: "mem_write (get_data_address nh) cfg (memory s) = (r1, d1)"
        by (cases "mem_write (get_data_address nh) cfg (memory s)")
      note c1 = mem_write_cases[OF w1]
      show False
      proof (cases r1)
        case (Inl e1)
        then show False using err Inr Some w1 c1 h by (auto simp: save_def nh_def[symmetric])
      next
        case r1ok: (Inr u1)
        show False
        proof (cases "to_bytes nh")
          case (Inl e2)
          then show False
            using err Inr Some w1 r1ok h to_bytes_error[OF Inl]
            by (auto simp: save_def nh_def[symmetric])
        next
          case tb: (Inr hb)
          obtain r2 d2 where w2: "mem_write 0 hb d1 = (r2, d2)"
            by (cases "mem_write 0 hb d1")
          note c2 = mem_write_cases[OF w2]
          show False
            using err Inr Some w1 r1ok tb w2 c2 h
            by (cases r2) (auto simp: save_def nh_def[symmetric])
        qed
      qed
    qed
  qed
  then show ?thesis by blast
qed

text \<open>
  C4, as the code has it: when the header bytes fail to decode with \<^verbatim>\<open>InvalidMagic\<close>,
  \<^verbatim>\<open>InvalidVersion\<close> or \<^verbatim>\<open>InvalidChecksum\<close>, the attach step builds a new header with
  the identifier the generator returns, data length 0 and data checksum \<open>0xFFFF\<close> (the
  checksum of the empty payload), makes it the current and the last header, sets the
  record to the generated name alone, and saves at once: what it returns is what that
  save returns, followed by the end of the attach step when the save succeeds. Unless the
  payload codec itself raises one, no header-format error leaves the attach step.
\<close>

theorem attached_initializes:
  assumes "mem_read 0 (int struct_size) (memory s) = (Inr header_data, d)"
    and "from_bytes header_data = Inl e"
    and "e \<in> {InvalidMagic, InvalidVersion, InvalidChecksum}"
  shows "(let h0 = Header (uuid1 env) (created_at env);
              s2 = s\<lparr>memory := d, connected := True, last_header := Some h0,
                     header := Some h0,
                     config := Some [''name'' \<mapsto> PyStr (generate_name env)]\<rparr>
          in uid h0 = uuid1 env \<and> data_length h0 = 0 \<and> data_checksum h0 = [0xFF, 0xFF]
             \<and> attached env s =
                 (case save env s2 of
                    (Inl e', s3) \<Rightarrow> (Inl e', s3)
                  | (Inr u, s3) \<Rightarrow> attach_done s3)
             \<and> ((\<forall>c e'. msgpack_dumps env c = Inl e' \<longrightarrow> \<not> is_HeaderError e')
                  \<longrightarrow> (\<forall>e'. fst (attached env s) = Inl e' \<longrightarrow> \<not> is_HeaderError e')))"
proof -
  have k: "is_HeaderError e" using assms(3) by auto
  define s2 where "s2 = s\<lparr>memory := d, connected := True,
      last_header := Some (Header (uuid1 env) (created_at env)),
      header := Some (Header (uuid1 env) (created_at env)),
      config := Some [''name'' \<mapsto> PyStr (generate_name env)]\<rparr>"
  have a: "attached env s =
      (case save env s2 of (Inl e', s3) \<Rightarrow> (Inl e', s3) | (Inr u, s3) \<Rightarrow> attach_done s3)"
    unfolding s2_def by (rule attached_uninitialized[OF assms(1,2) k])
  have b: "\<not> is_HeaderError e'"
    if "\<forall>c e'. msgpack_dumps env c = Inl e' \<longrightarrow> \<not> is_HeaderError e'"
      and "fst (attached env s) = Inl e'" for e'
  proof -
    have "fst (save env s2) = Inl e'"
      using that(2) unfolding a by (auto simp: attach_done_def split: prod.splits sum.splits)
    then show ?thesis using that(1) by (rule save_error_kind[rotated])
  qed
  show ?thesis
    unfolding Let_def s2_def[symmetric]
    using a b by (simp add: Header_def NULL_CRC16_def)
qed

lemma blank_read_header:
  "mem_read 0 (int struct_size) (memory (CocoaMemory blank_device :: int cocoa_memory))
     = (Inr (replicate 32 0xFF), blank_device)"
  by (simp add: mem_read_def next_fails_def CocoaMemory_def blank_device_def struct_size_def
      fetch_const)

lemma blank_from_bytes: "from_bytes (replicate 32 0xFF) = Inl InvalidMagic"
  using from_bytes_32[of "replicate 32 0xFF"] blank_header_data by simp

lemma sample_dumps_no_header_error:
  "\<forall>c e'. msgpack_dumps sample_env c = Inl e' \<longrightarrow> \<not> is_HeaderError e'"
  by (auto simp: sample_env_fields sample_dumps_def split: option.splits pyobj.splits if_splits)

lemma save_last_header:
  "save env (s\<lparr>last_header := x\<rparr>) = (fst (save env s), (snd (save env s))\<lparr>last_header := x\<rparr>)"
  by (auto simp: save_def Let_def split: sum.splits option.splits prod.splits)

lemma blank_attached:
  "attached sample_env (CocoaMemory blank_device) =
     attach_done
       (sample_connected
          \<lparr>memory := saved_device\<lparr>written := [(256, payload_x), (0, sample_header_bytes)]\<rparr>,
           header := Some sample_header, last_config := Some [''name'' \<mapsto> PyStr ''x''],
           last_header := Some (Header sample_uid 1700000000)\<rparr>)"
proof -
  have s2: "(CocoaMemory blank_device :: int cocoa_memory)
       \<lparr>memory := blank_device, connected := True,
        last_header := Some (Header (uuid1 sample_env) (created_at sample_env)),
        header := Some (Header (uuid1 sample_env) (created_at sample_env)),
        config := Some [''name'' \<mapsto> PyStr (generate_name sample_env)]\<rparr>
      = sample_connected\<lparr>last_header := Some (Header sample_uid 1700000000)\<rparr>"
    by (simp add: sample_connected_def CocoaMemory_def sample_env_fields)
  have k: "is_HeaderError InvalidMagic" by simp
  show ?thesis
    unfolding attached_uninitialized[OF blank_read_header blank_from_bytes k] s2
    by (simp add: save_last_header sample_save)
qed

text \<open>
  Attaching a blank device: the header does not decode, and the controller ends up
  connected, with the generated name as the record and a valid header and payload on the
  device.
\<close>

theorem attached_initializes_witness:
  "mem_read 0 (int struct_size) (memory (CocoaMemory blank_device :: int cocoa_memory))
     = (Inr (replicate 32 0xFF), blank_device)
   \<and> from_bytes (replicate 32 0xFF) = Inl InvalidMagic
   \<and> attached sample_env (CocoaMemory blank_device)
       = (case save sample_env
                 (sample_connected\<lparr>last_header := Some (Header sample_uid 1700000000)\<rparr>) of
            (Inl e', s3) \<Rightarrow> (Inl e', s3)
          | (Inr u, s3) \<Rightarrow> attach_done s3)
   \<and> fst (attached sample_env (CocoaMemory blank_device)) = Inr ()
   \<and> config (snd (attached sample_env (CocoaMemory blank_device)))
       = Some [''name'' \<mapsto> PyStr ''x'']
   \<and> header (snd (attached sample_env (CocoaMemory blank_device))) = Some sample_header
   \<and> cells (memory (snd (attached sample_env (CocoaMemory blank_device))))
       = cells saved_device"
proof -
  have e: "InvalidMagic \<in> {InvalidMagic, InvalidVersion, InvalidChecksum}" by simp
  have s2: "(CocoaMemory blank_device :: int cocoa_memory)
       \<lparr>memory := blank_device, connected := True,
        last_header := Some (Header sample_uid 1700000000),
        header := Some (Header sample_uid 1700000000),
        config := Some [''name'' \<mapsto> PyStr ''x'']\<rparr>
      = sample_connected\<lparr>last_header := Some (Header sample_uid 1700000000)\<rparr>"
    by (simp add: sample_connected_def CocoaMemory_def)
  have "attached sample_env (CocoaMemory blank_device)
       = (case save sample_env
                 (sample_connected\<lparr>last_header := Some (Header sample_uid 1700000000)\<rparr>) of
            (Inl e', s3) \<Rightarrow> (Inl e', s3)
          | (Inr u, s3) \<Rightarrow> attach_done s3)"
    using attached_initializes[OF blank_read_header blank_from_bytes e, of sample_env]
    by (simp add: Let_def sample_env_fields s2)
  then show ?thesis
    using blank_read_header blank_from_bytes
    by (simp add: save_last_header sample_save attach_done_def sample_connected_fields)
qed

text \<open>
  C4 as stated fails: the header synthesized for a blank device has the data checksum
  \<open>0xFFFF\<close>, not zero.
\<close>

theorem fresh_header_checksum_not_zero:
  "mem_read 0 (int struct_size) (memory (CocoaMemory blank_device :: int cocoa_memory))
     = (Inr (replicate 32 0xFF), blank_device)
   \<and> from_bytes (replicate 32 0xFF) = Inl InvalidMagic
   \<and> last_header (snd (attached sample_env (CocoaMemory blank_device)))
       = Some (Header sample_uid 1700000000)
   \<and> data_checksum (Header sample_uid 1700000000) = [0xFF, 0xFF]
   \<and> data_checksum (Header sample_uid 1700000000) \<noteq> [0, 0]"
  using blank_read_header blank_from_bytes
  by (simp add: blank_attached attach_done_def Header_def NULL_CRC16_def)

subsection \<open>Attaching an initialized device\<close>

lemma attached_loads_payload:
  assumes "mem_read 0 (int struct_size) (memory s) = (Inr header_data, d)"
    and "from_bytes header_data = Inr h"
    and "0 < data_length h"
    and "\<not> (Some h = last_header s \<and> truthy (last_config s))"
    and "mem_read (get_data_address h) (data_length h) d = (Inr data, d')"
    and "msgpack_loads env data = Inr m"
  shows "attached env s =
     attach_done (s\<lparr>memory := d', connected := True, header := Some h,
                     last_config := Some m, config := Some m\<rparr>)"
proof -
  have no_shortcut: "(Some h = last_header s \<and> truthy (last_config s)) = False"
    using assms(4) by simp
  show ?thesis
    using assms(1,2,3,5,6) no_shortcut by (cases s) (auto simp: attached_def Let_def)
qed

lemma length_payloads: "length payload_x = 8" "length payload_y = 8"
  by (simp_all add: payload_x_def payload_y_def)

lemma fetch_header: "fetch (place 0 sample_header_bytes c) 0 32 = sample_header_bytes"
  using fetch_place_same[of 0 sample_header_bytes c] by (simp add: length_sample_header_bytes)

lemma fetch_payload:
  assumes "length p = 8"
  shows "fetch (place 0 sample_header_bytes (place 256 p c)) 256 8 = p"
proof -
  have "fetch (place 0 sample_header_bytes (place 256 p c)) 256 8 = fetch (place 256 p c) 256 8"
    by (rule fetch_place_disjoint) (simp add: length_sample_header_bytes)
  also have "\<dots> = p" using fetch_place_same[of 256 p c] assms by simp
  finally show ?thesis .
qed

lemma device_read_header:
  "mem_read 0 (int struct_size)
     \<lparr>cells = place 0 sample_header_bytes c, written = [], faults = []\<rparr>
   = (Inr sample_header_bytes,
      \<lparr>cells = place 0 sample_header_bytes c, written = [], faults = []\<rparr>)"
  by (simp add: mem_read_def next_fails_def struct_size_def fetch_header)

lemma device_read_payload:
  assumes "length p = 8"
  shows "mem_read 256 8
     \<lparr>cells = place 0 sample_header_bytes (place 256 p c), written = [], faults = []\<rparr>
   = (Inr p, \<lparr>cells = place 0 sample_header_bytes (place 256 p c), written = [], faults = []\<rparr>)"
  by (simp add: mem_read_def next_fails_def fetch_payload[OF assms])

lemma sample_header_fields:
  "data_length sample_header = 8" "data_checksum sample_header = [0xCF, 0xAE]"
  by (simp_all add: sample_header_def)

lemma sample_loads_payloads:
  "msgpack_loads sample_env payload_x = Inr [''name'' \<mapsto> PyStr ''x'']"
  "msgpack_loads sample_env payload_y = Inr [''name'' \<mapsto> PyStr ''y'']"
  by (simp_all add: sample_env_fields sample_loads_def) (simp add: payload_x_def payload_y_def)

lemma fresh_controller_fields:
  "memory (CocoaMemory d) = d" "last_header (CocoaMemory d) = None"
  "last_config (CocoaMemory d) = None" "config (CocoaMemory d) = None"
  by (simp_all add: CocoaMemory_def)

text \<open>
  C1, as the code has it: for a header that decodes with a positive data length, the
  attach step never compares the payload with \<open>data_checksum\<close>. Unless the header
  equals the last header and a non-empty last-persisted record is cached, it reads
  \<open>data_length\<close> bytes at the payload address and, when the read and the payload codec
  succeed, adopts the decoded record as the last-persisted and the current record,
  whatever the checksum of the bytes read.
\<close>

theorem attached_adopts_payload:
  assumes "mem_read 0 (int struct_size) (memory s) = (Inr header_data, d)"
    and "from_bytes header_data = Inr h"
    and "0 < data_length h"
    and "\<not> (Some h = last_header s \<and> truthy (last_config s))"
    and "mem_read (get_data_address h) (data_length h) d = (Inr data, d')"
    and "msgpack_loads env data = Inr m"
  shows "fst (attached env s) = Inr ()
     \<and> config (snd (attached env s)) = Some m
     \<and> last_config (snd (attached env s)) = Some m
     \<and> header (snd (attached env s)) = Some h
     \<and> connected (snd (attached env s))"
  by (simp add: attached_loads_payload[OF assms] attach_done_def)

text \<open>Attaching the device that holds \<open>sample_header\<close> and the payload it was saved with.\<close>

theorem attached_adopts_payload_witness:
  "mem_read 0 (int struct_size) (memory (CocoaMemory saved_device :: int cocoa_memory))
     = (Inr sample_header_bytes, saved_device)
   \<and> from_bytes sample_header_bytes = Inr sample_header
   \<and> 0 < data_length sample_header
   \<and> \<not> (Some sample_header = last_header (CocoaMemory saved_device :: int cocoa_memory)
         \<and> truthy (last_config (CocoaMemory saved_device :: int cocoa_memory)))
   \<and> mem_read (get_data_address sample_header) (data_length sample_header) saved_device
       = (Inr payload_x, saved_device)
   \<and> msgpack_loads sample_env payload_x = Inr [''name'' \<mapsto> PyStr ''x'']
   \<and> fst (attached sample_env (CocoaMemory saved_device)) = Inr ()
   \<and> config (snd (attached sample_env (CocoaMemory saved_device)))
       = Some [''name'' \<mapsto> PyStr ''x'']"
proof -
  have r1: "mem_read 0 (int struct_size) (memory (CocoaMemory saved_device :: int cocoa_memory))
      = (Inr sample_header_bytes, saved_device)"
    by (simp add: fresh_controller_fields saved_device_def device_read_header)
  have pos: "0 < data_length sample_header" by (simp add: sample_header_fields)
  have nl: "\<not> (Some sample_header = last_header (CocoaMemory saved_device :: int cocoa_memory)
         \<and> truthy (last_config (CocoaMemory saved_device :: int cocoa_memory)))"
    by (simp add: fresh_controller_fields)
  have r2: "mem_read (get_data_address sample_header) (data_length sample_header) saved_device
       = (Inr payload_x, saved_device)"
    by (simp add: sample_data_address sample_header_fields saved_device_def
        device_read_payload length_payloads)
  show ?thesis
    using attached_adopts_payload[OF r1 sample_from_bytes pos nl r2 sample_loads_payloads(1)]
      r1 sample_from_bytes pos nl r2 sample_loads_payloads(1)
    by blast
qed

text \<open>
  C1 as stated fails: the stale device holds a header that decodes, with data length 8
  and data checksum \<open>0xCFAE\<close>, over a payload whose checksum is \<open>0xDE27\<close>; the attach
  step returns normally and the record decoded from that payload is the current record.
\<close>

theorem attached_adopts_unchecked_payload:
  "fetch (cells stale_device) 0 32 = sample_header_bytes
   \<and> from_bytes sample_header_bytes = Inr sample_header
   \<and> 0 < data_length sample_header
   \<and> fetch (cells stale_device) (get_data_address sample_header) (data_length sample_header)
       = payload_y
   \<and> crc16_ccitt payload_y \<noteq> data_checksum sample_header
   \<and> fst (attached sample_env (CocoaMemory stale_device)) = Inr ()
   \<and> config (snd (attached sample_env (CocoaMemory stale_device)))
       = Some [''name'' \<mapsto> PyStr ''y'']"
proof -
  have r1: "mem_read 0 (int struct_size) (memory (CocoaMemory stale_device :: int cocoa_memory))
      = (Inr sample_header_bytes, stale_device)"
    by (simp add: fresh_controller_fields stale_device_def device_read_header)
  have pos: "0 < data_length sample_header" by (simp add: sample_header_fields)
  have nl: "\<not> (Some sample_header = last_header (CocoaMemory stale_device :: int cocoa_memory)
         \<and> truthy (last_config (CocoaMemory stale_device :: int cocoa_memory)))"
    by (simp add: fresh_controller_fields)
  have r2: "mem_read (get_data_address sample_header) (data_length sample_header) stale_device
       = (Inr payload_y, stale_device)"
    by (simp add: sample_data_address sample_header_fields stale_device_def
        device_read_payload length_payloads)
  have f1: "fetch (cells stale_device) 0 32 = sample_header_bytes"
    by (simp add: stale_device_def fetch_header)
  have f2: "fetch (cells stale_device) (get_data_address sample_header)
      (data_length sample_header) = payload_y"
    by (simp add: stale_device_def sample_data_address sample_header_fields fetch_payload
        length_payloads)
  have c: "crc16_ccitt payload_y \<noteq> data_checksum sample_header"
    by (simp add: crc_payload_y sample_header_fields)
  show ?thesis
    using f1 f2 c pos sample_from_bytes
    by (simp add: attached_loads_payload[OF r1 sample_from_bytes pos nl r2
          sample_loads_payloads(2)] attach_done_def)
qed

subsection \<open>The accessors after an interrupted attach\<close>

lemma unreadable_attached:
  "attached sample_env (CocoaMemory unreadable_device) =
     (Inl CommandError,
      (CocoaMemory saved_device)\<lparr>connected := True, header := Some sample_header\<rparr>)"
  by (simp add: attached_def Let_def CocoaMemory_def unreadable_device_def saved_device_def
      mem_read_def next_fails_def struct_size_def fetch_header sample_from_bytes
      sample_header_fields sample_data_address truthy_def)

text \<open>
  C9 as stated fails in two ways. On a connected controller whose record lacks the key,
  \<^verbatim>\<open>get\<close> called with \<^verbatim>\<open>...\<close> as its explicit default raises \<^verbatim>\<open>KeyError\<close>. And when
  the payload read of the attach step fails, the controller is left connected without a
  record: \<^verbatim>\<open>get\<close> with a default then raises \<^verbatim>\<open>AttributeError\<close>, not the default and
  not \<^verbatim>\<open>KeyError\<close>.
\<close>

theorem get_with_default_can_fail:
  "connected sample_connected
   \<and> config sample_connected = Some [''name'' \<mapsto> PyStr ''x'']
   \<and> ''offset'' \<notin> dom [''name'' \<mapsto> PyStr ''x'' :: int pyobj]
   \<and> fst (get ''offset'' Ellipsis sample_connected) = Inl KeyError
   \<and> fst (attached sample_env (CocoaMemory unreadable_device)) = Inl CommandError
   \<and> connected (snd (attached sample_env (CocoaMemory unreadable_device)))
   \<and> config (snd (attached sample_env (CocoaMemory unreadable_device))) = None
   \<and> fst (get ''offset'' (Obj 5) (snd (attached sample_env (CocoaMemory unreadable_device))))
       = Inl AttributeError
   \<and> fst (get ''offset'' Ellipsis (snd (attached sample_env (CocoaMemory unreadable_device))))
       = Inl AttributeError"
  by (simp add: unreadable_attached sample_connected_fields get_def)
    (simp add: CocoaMemory_def)

end
